theory Spec2Isabelle
  imports Complex_Main
begin

section \<open>Auxiliary classes (auxiliary\_classes.py)\<close>

text \<open>
  \<open>FrequencyType\<close> is a Python \<open>float\<close> (the tests pass integers). Frequencies, capacities
  and durations are modelled as exact rationals: comparisons, subtraction and division are
  the mathematical ones, and NaN and the infinities are not values of the model.
\<close>

type_synonym FrequencyType = rat

text \<open>Python's \<open>int(x)\<close> on a number truncates towards zero.\<close>

definition py_int :: "rat \<Rightarrow> int" where
  "py_int x = (if 0 \<le> x then \<lfloor>x\<rfloor> else \<lceil>x\<rceil>)"

text \<open>
  \<open>frequency or default\<close> on an optional number: \<open>None\<close> and \<open>0\<close> are both falsy, so
  either of them yields the default.
\<close>

definition py_or :: "FrequencyType option \<Rightarrow> FrequencyType \<Rightarrow> FrequencyType" where
  "py_or frequency dflt =
     (case frequency of None \<Rightarrow> dflt | Some f \<Rightarrow> if f = 0 then dflt else f)"

text \<open>Truthiness of an optional number (\<open>if frequency:\<close>).\<close>

definition truthy :: "FrequencyType option \<Rightarrow> bool" where
  "truthy frequency = (case frequency of None \<Rightarrow> False | Some f \<Rightarrow> f \<noteq> 0)"

record MemoryBlock =
  memory_id :: int
  block_start :: int
  block_end :: int

text \<open>The property \<open>MemoryBlock.size\<close>.\<close>

definition block_size :: "MemoryBlock \<Rightarrow> int" where
  "block_size b = block_end b - block_start b"

text \<open>
  \<open>Radiosignal.__eq__\<close> compares all five fields, which is equality of the record.
\<close>

record Radiosignal =
  id_transmitter :: int
  id_receiver :: int
  memory :: MemoryBlock
  frequency :: FrequencyType
  id_antenna_receiver :: "int option"

text \<open>
  \<open>ListenEtherTask\<close>; its field \<open>id_antenna_receiver\<close> is written
  \<open>task_id_antenna_receiver\<close> here, the name being taken by the signal's field.
  \<open>ListenEtherTask.__eq__\<close> compares all six fields.
\<close>

record ListenEtherTask =
  frequency_recipiency :: FrequencyType
  task_id_antenna_receiver :: "int option"
  frequency_transmission_relay :: "FrequencyType option"
  id_destination_relay :: "int option"
  id_antenna_destination_relay :: "int option"
  save_relayed_signals_locally_relay :: bool

text \<open>
  The exceptions the code raises. The source raises the bare \<open>Exception\<close> with a message;
  the constructors name the messages.
\<close>

datatype error =
    AssertionError
  | KeyError
  | ZeroDivisionError
  | OverflowError
  | TypeError
  | PropertiesRangeError
  | FrequencyRangeError
  | AnotherModeError
  | AnotherFrequencyError
  | CapacityError

section \<open>Signal objects\<close>

text \<open>
  \<open>Radiosignal\<close> objects are mutable and shared: \<open>add_signal\<close> rewrites the fields of the
  object it was given, and the inbox and the dedup cache of a consumer hold references to
  that same object. The model therefore keeps the signal objects in a store, a list indexed
  by address; an inbox or a cache is a list of addresses. A new object is appended.
\<close>

type_synonym addr = nat
type_synonym heap = "Radiosignal list"

definition alloc :: "Radiosignal \<Rightarrow> heap \<Rightarrow> addr \<times> heap" where
  "alloc s h = (length h, h @ [s])"

text \<open>
  \<open>signal in list\<close> on a list of objects: Python's \<open>in\<close> accepts an element that is the
  same object or that is equal by \<open>__eq__\<close>.
\<close>

definition signal_in :: "heap \<Rightarrow> addr \<Rightarrow> addr list \<Rightarrow> bool" where
  "signal_in h a l = list_ex (\<lambda>b. b = a \<or> h ! b = h ! a) l"

text \<open>
  A dictionary from bucket key to list: \<open>d.setdefault(key, [])\<close> followed by
  \<open>d[key].append(v)\<close>, and \<open>d.get(key, [])\<close>.
\<close>

definition dict_append :: "(int \<rightharpoonup> 'a list) \<Rightarrow> int \<Rightarrow> 'a \<Rightarrow> (int \<rightharpoonup> 'a list)" where
  "dict_append d k v = d(k \<mapsto> (case d k of None \<Rightarrow> [] | Some l \<Rightarrow> l) @ [v])"

definition dict_get :: "(int \<rightharpoonup> 'a list) \<Rightarrow> int \<Rightarrow> 'a list" where
  "dict_get d k = (case d k of None \<Rightarrow> [] | Some l \<Rightarrow> l)"

text \<open>The same on a dictionary whose order of keys matters (it is iterated).\<close>

fun odict_append :: "(int \<times> 'a list) list \<Rightarrow> int \<Rightarrow> 'a \<Rightarrow> (int \<times> 'a list) list" where
  "odict_append [] k v = [(k, [v])]"
| "odict_append ((k', l) # d) k v =
     (if k' = k then (k', l @ [v]) # d else (k', l) # odict_append d k v)"

text \<open>
  \<open>if x not in xs: xs.append(x)\<close> on a list, and \<open>if k not in d: d[k] = v\<close> on a
  dictionary.
\<close>

definition append_if_absent :: "'a \<Rightarrow> 'a list \<Rightarrow> 'a list" where
  "append_if_absent x xs = (if x \<in> set xs then xs else xs @ [x])"

definition insert_if_absent :: "int \<Rightarrow> 'a \<Rightarrow> (int \<times> 'a) list \<Rightarrow> (int \<times> 'a) list" where
  "insert_if_absent k v d = (if k \<in> fst ` set d then d else d @ [(k, v)])"

section \<open>The global consumer (global\_system.py)\<close>

record RadioTransmissionMediumConsumerProperties =
  consumer_frequency :: FrequencyType
  id_consumer :: int

record RadioTransmissionMediumConsumer =
  properties :: RadioTransmissionMediumConsumerProperties
  dict_id_receiver_signals_to_send :: "(int \<times> addr list) list"
  dict_frequency_signal_to_receive :: "int \<rightharpoonup> addr list"
  listen_ether_tasks :: "ListenEtherTask list"
  dict_getting_information :: "int \<rightharpoonup> addr list"

definition RadioTransmissionMediumConsumer_init ::
  "RadioTransmissionMediumConsumerProperties \<Rightarrow> RadioTransmissionMediumConsumer" where
  "RadioTransmissionMediumConsumer_init props =
     \<lparr>properties = props,
      dict_id_receiver_signals_to_send = [],
      dict_frequency_signal_to_receive = Map.empty,
      listen_ether_tasks = [],
      dict_getting_information = Map.empty\<rparr>"

definition clear_tasks :: "RadioTransmissionMediumConsumer \<Rightarrow> RadioTransmissionMediumConsumer" where
  "clear_tasks c = c\<lparr>dict_id_receiver_signals_to_send := [], listen_ether_tasks := []\<rparr>"

text \<open>\<open>send_signal\<close> creates a new signal object and queues it; it returns the flag.\<close>

definition send_signal ::
  "int \<Rightarrow> MemoryBlock \<Rightarrow> FrequencyType option \<Rightarrow> int option \<Rightarrow>
   heap \<Rightarrow> RadioTransmissionMediumConsumer \<Rightarrow> bool \<times> heap \<times> RadioTransmissionMediumConsumer" where
  "send_signal id_rec mem freq id_ant h c =
     (if id_consumer (properties c) = id_rec then (False, h, c)
      else
        (case alloc \<lparr>id_transmitter = id_consumer (properties c), id_receiver = id_rec,
                     memory = mem, frequency = py_or freq (consumer_frequency (properties c)),
                     id_antenna_receiver = id_ant\<rparr> h of
           (a, h') \<Rightarrow>
             (True, h',
              c\<lparr>dict_id_receiver_signals_to_send :=
                   odict_append (dict_id_receiver_signals_to_send c) id_rec a\<rparr>)))"

text \<open>\<open>receive_signal\<close> returns the inbox bucket (a list of signal objects).\<close>

definition receive_signal ::
  "FrequencyType option \<Rightarrow> RadioTransmissionMediumConsumer \<Rightarrow> addr list" where
  "receive_signal freq c =
     dict_get (dict_frequency_signal_to_receive c)
       (py_int (py_or freq (consumer_frequency (properties c))))"

definition listen_ether ::
  "int \<Rightarrow> FrequencyType option \<Rightarrow> RadioTransmissionMediumConsumer \<Rightarrow>
   bool \<times> RadioTransmissionMediumConsumer" where
  "listen_ether id_ant freq c =
     (if \<lparr>frequency_recipiency = py_or freq (consumer_frequency (properties c)),
          task_id_antenna_receiver = Some id_ant,
          frequency_transmission_relay = None,
          id_destination_relay = None,
          id_antenna_destination_relay = None,
          save_relayed_signals_locally_relay = False\<rparr> \<notin> set (listen_ether_tasks c)
      then (True,
            c\<lparr>listen_ether_tasks := listen_ether_tasks c @
                [\<lparr>frequency_recipiency = py_or freq (consumer_frequency (properties c)),
                  task_id_antenna_receiver = Some id_ant,
                  frequency_transmission_relay = None,
                  id_destination_relay = None,
                  id_antenna_destination_relay = None,
                  save_relayed_signals_locally_relay = False\<rparr>]\<rparr>)
      else (False, c))"

definition i_am_repeater ::
  "int \<Rightarrow> int \<Rightarrow> int option \<Rightarrow> FrequencyType option \<Rightarrow> FrequencyType option \<Rightarrow> bool \<Rightarrow>
   RadioTransmissionMediumConsumer \<Rightarrow> bool \<times> RadioTransmissionMediumConsumer" where
  "i_am_repeater id_dest id_ant id_ant_dest freq_in freq_out save c =
     (if id_consumer (properties c) = id_dest then (False, c)
      else (True,
            c\<lparr>listen_ether_tasks := listen_ether_tasks c @
                [\<lparr>frequency_recipiency = py_or freq_in (consumer_frequency (properties c)),
                  task_id_antenna_receiver = Some id_ant,
                  frequency_transmission_relay =
                    Some (py_or freq_out (consumer_frequency (properties c))),
                  id_destination_relay = Some id_dest,
                  id_antenna_destination_relay = id_ant_dest,
                  save_relayed_signals_locally_relay = save\<rparr>]\<rparr>))"

section \<open>The transmission medium (global\_system.py)\<close>

text \<open>
  The consumers are a dictionary from id to consumer object, iterated in insertion order:
  an association list. A consumer object is referred to by its key.
\<close>

record RadioTransmissionMediumSystem =
  consumers :: "(int \<times> RadioTransmissionMediumConsumer) list"
  frequency_accuracy :: FrequencyType

definition RadioTransmissionMediumSystem_init :: RadioTransmissionMediumSystem where
  "RadioTransmissionMediumSystem_init = \<lparr>consumers = [], frequency_accuracy = 10\<rparr>"

definition register_consumer ::
  "RadioTransmissionMediumConsumerProperties \<Rightarrow> RadioTransmissionMediumSystem \<Rightarrow>
   RadioTransmissionMediumSystem" where
  "register_consumer props m =
     (case map_of (consumers m) (id_consumer props) of
        None \<Rightarrow> m\<lparr>consumers := consumers m @
                    [(id_consumer props, RadioTransmissionMediumConsumer_init props)]\<rparr>
      | Some c \<Rightarrow> m)"

definition can_consumer_receive_signal_by_frequency ::
  "RadioTransmissionMediumSystem \<Rightarrow> FrequencyType \<Rightarrow> FrequencyType \<Rightarrow> bool" where
  "can_consumer_receive_signal_by_frequency m signal_frequency receiver_frequency =
     (\<bar>signal_frequency - receiver_frequency\<bar> < frequency_accuracy m)"

definition can_consumer_receive_signal_by_antenna :: "int option \<Rightarrow> int \<Rightarrow> bool" where
  "can_consumer_receive_signal_by_antenna signal_id_antenna receiver_id_antenna =
     (signal_id_antenna = Some receiver_id_antenna)"

text \<open>Mutation of the consumer object with key \<open>rid\<close>.\<close>

definition update_consumer ::
  "int \<Rightarrow> (RadioTransmissionMediumConsumer \<Rightarrow> RadioTransmissionMediumConsumer) \<Rightarrow>
   RadioTransmissionMediumSystem \<Rightarrow> RadioTransmissionMediumSystem" where
  "update_consumer rid f m =
     m\<lparr>consumers := map (\<lambda>(k, c). if k = rid then (k, f c) else (k, c)) (consumers m)\<rparr>"

text \<open>
  \<open>recipient.dict_getting_information.setdefault(key, [])\<close> read through the reference
  \<open>recipient\<close>; an unregistered key cannot occur there (the recipient was looked up).
\<close>

definition getting_information :: "RadioTransmissionMediumSystem \<Rightarrow> int \<Rightarrow> int \<Rightarrow> addr list" where
  "getting_information m rid key =
     (case map_of (consumers m) rid of
        None \<Rightarrow> []
      | Some c \<Rightarrow> dict_get (dict_getting_information c) key)"

text \<open>\<open>recipient.dict_getting_information[key].append(signal)\<close>\<close>

definition record_signal ::
  "int \<Rightarrow> int \<Rightarrow> addr \<Rightarrow> RadioTransmissionMediumSystem \<Rightarrow> RadioTransmissionMediumSystem" where
  "record_signal rid key a m =
     update_consumer rid
       (\<lambda>c. c\<lparr>dict_getting_information := dict_append (dict_getting_information c) key a\<rparr>) m"

text \<open>
  \<open>recipient.dict_frequency_signal_to_receive.setdefault(key, [])\<close> and the \<open>append\<close> of
  the signal object.
\<close>

definition deposit_signal ::
  "int \<Rightarrow> int \<Rightarrow> addr \<Rightarrow> RadioTransmissionMediumSystem \<Rightarrow> RadioTransmissionMediumSystem" where
  "deposit_signal rid key a m =
     update_consumer rid
       (\<lambda>c. c\<lparr>dict_frequency_signal_to_receive :=
               dict_append (dict_frequency_signal_to_receive c) key a\<rparr>) m"

text \<open>
  The three assignments \<open>signal.id_receiver = ...\<close>, \<open>signal.frequency = ...\<close>,
  \<open>signal.id_antenna_receiver = ...\<close> on the object at address \<open>a\<close>.
\<close>

definition retarget :: "int \<Rightarrow> FrequencyType \<Rightarrow> int option \<Rightarrow> addr \<Rightarrow> heap \<Rightarrow> heap" where
  "retarget dest ft ant a h =
     h[a := (h ! a)\<lparr>id_receiver := dest, frequency := ft, id_antenna_receiver := ant\<rparr>]"

text \<open>
  The medium on which a relay task recurses: the signal is in the dedup cache, and in the
  inbox too \<open>if listener.save_relayed_signals_locally_relay\<close>.
\<close>

definition relay_medium ::
  "ListenEtherTask \<Rightarrow> int \<Rightarrow> addr \<Rightarrow> RadioTransmissionMediumSystem \<Rightarrow> RadioTransmissionMediumSystem" where
  "relay_medium l rid a m =
     (if save_relayed_signals_locally_relay l
      then deposit_signal rid (py_int (frequency_recipiency l)) a
             (record_signal rid (py_int (frequency_recipiency l)) a m)
      else record_signal rid (py_int (frequency_recipiency l)) a m)"

text \<open>
  \<open>add_signal\<close> is recursive through the relay; \<open>add_signal_loop\<close> is its \<open>for listener in
  recipient.listen_ether_tasks\<close>, which goes on with the (rewritten) signal object after a
  recursive call returns. The first argument bounds the depth of the recursion: \<open>None\<close> is
  a recursion cut off at that depth, \<open>Some (Inl e)\<close> an exception, \<open>Some (Inr (h, m))\<close> the
  store and the medium after the call.
\<close>

fun add_signal ::
    "nat \<Rightarrow> addr \<Rightarrow> heap \<Rightarrow> RadioTransmissionMediumSystem \<Rightarrow>
     (error + heap \<times> RadioTransmissionMediumSystem) option"
  and add_signal_loop ::
    "nat \<Rightarrow> addr \<Rightarrow> int \<Rightarrow> ListenEtherTask list \<Rightarrow> heap \<Rightarrow> RadioTransmissionMediumSystem \<Rightarrow>
     (error + heap \<times> RadioTransmissionMediumSystem) option" where
  "add_signal 0 a h m = None"
| "add_signal (Suc n) a h m =
     (case map_of (consumers m) (id_receiver (h ! a)) of
        None \<Rightarrow> Some (Inr (h, m))
      | Some recipient \<Rightarrow>
          add_signal_loop n a (id_receiver (h ! a)) (listen_ether_tasks recipient) h m)"
| "add_signal_loop n a rid [] h m = Some (Inr (h, m))"
| "add_signal_loop n a rid (listener # rest) h m =
     (case task_id_antenna_receiver listener of
        None \<Rightarrow> Some (Inl AssertionError)
      | Some ant \<Rightarrow>
          if can_consumer_receive_signal_by_frequency m (frequency (h ! a))
               (frequency_recipiency listener)
             \<and> can_consumer_receive_signal_by_antenna (id_antenna_receiver (h ! a)) ant
          then
            if \<not> signal_in h a
                 (getting_information m rid (py_int (frequency_recipiency listener)))
            then
              (case id_destination_relay listener of
                 Some dest \<Rightarrow>
                   (case frequency_transmission_relay listener of
                      None \<Rightarrow> Some (Inl AssertionError)
                    | Some ft \<Rightarrow>
                        (case add_signal n a
                                (retarget dest ft (id_antenna_destination_relay listener) a h)
                                (relay_medium listener rid a m) of
                           None \<Rightarrow> None
                         | Some (Inl e) \<Rightarrow> Some (Inl e)
                         | Some (Inr (h', m')) \<Rightarrow> add_signal_loop n a rid rest h' m'))
               | None \<Rightarrow>
                   add_signal_loop n a rid rest h
                     (deposit_signal rid (py_int (frequency_recipiency listener)) a
                        (record_signal rid (py_int (frequency_recipiency listener)) a m)))
            else add_signal_loop n a rid rest h m
          else add_signal_loop n a rid rest h m)"


text \<open>
  \<open>RadioTransmissionMediumSystem.imitation_step\<close>: the inboxes and the dedup caches of all
  consumers are emptied, every queued signal of every consumer goes through \<open>add_signal\<close>,
  then every consumer's \<open>clear_tasks\<close> runs. The first argument is the recursion bound
  handed to each \<open>add_signal\<close>.
\<close>

fun add_signals ::
  "nat \<Rightarrow> addr list \<Rightarrow> heap \<Rightarrow> RadioTransmissionMediumSystem \<Rightarrow>
   (error + heap \<times> RadioTransmissionMediumSystem) option" where
  "add_signals n [] h m = Some (Inr (h, m))"
| "add_signals n (a # rest) h m =
     (case add_signal n a h m of
        None \<Rightarrow> None
      | Some (Inl e) \<Rightarrow> Some (Inl e)
      | Some (Inr (h', m')) \<Rightarrow> add_signals n rest h' m')"

definition queued_signals :: "RadioTransmissionMediumSystem \<Rightarrow> addr list" where
  "queued_signals m =
     concat (map (\<lambda>(k, c). concat (map snd (dict_id_receiver_signals_to_send c))) (consumers m))"

definition medium_imitation_step ::
  "nat \<Rightarrow> heap \<Rightarrow> RadioTransmissionMediumSystem \<Rightarrow>
   (error + heap \<times> RadioTransmissionMediumSystem) option" where
  "medium_imitation_step n h m =
     (case add_signals n (queued_signals m) h
             (m\<lparr>consumers :=
                  map (\<lambda>(k, c). (k, c\<lparr>dict_frequency_signal_to_receive := Map.empty,
                                        dict_getting_information := Map.empty\<rparr>))
                      (consumers m)\<rparr>) of
        None \<Rightarrow> None
      | Some (Inl e) \<Rightarrow> Some (Inl e)
      | Some (Inr (h', m')) \<Rightarrow>
          Some (Inr (h', m'\<lparr>consumers := map (\<lambda>(k, c). (k, clear_tasks c)) (consumers m')\<rparr>)))"

section \<open>The transmit-receive device (local\_system.py)\<close>

datatype CommunicationModeType = TRANSMISSION | RECEPTION | RELAYING_IN | RELAYING_OUT | FREE

text \<open>
  \<open>TransmitReceiveDeviceProperties\<close>: the capacities, the frequency range and the
  consumption fields that \<open>__post_init__\<close> reads or writes. The remaining fields of the
  dataclass (mass, guidance time, loss coefficients, noise, network id, offset angle) are
  data no method of the module reads, and are left out.
\<close>

record TransmitReceiveDeviceProperties =
  channel_capacity_transmit :: rat
  channel_capacity_receive :: rat
  frequency_range_min :: FrequencyType
  frequency_range_max :: FrequencyType
  consumption :: rat
  consumption_transmission :: "rat option"
  consumption_reception :: "rat option"

text \<open>
  Construction of the dataclass: \<open>post_init\<close> is \<open>__post_init__\<close> on the fields as passed.
\<close>

definition post_init ::
  "TransmitReceiveDeviceProperties \<Rightarrow> error + TransmitReceiveDeviceProperties" where
  "post_init p =
     (if frequency_range_min p > frequency_range_max p then Inl PropertiesRangeError
      else Inr (p\<lparr>consumption_transmission :=
                     (case consumption_transmission p of
                        None \<Rightarrow> Some (consumption p) | Some x \<Rightarrow> Some x),
                   consumption_reception :=
                     (case consumption_reception p of
                        None \<Rightarrow> Some (consumption p) | Some x \<Rightarrow> Some x)\<rparr>))"

text \<open>
  \<open>TransmitReceiveDevice\<close>; its attributes \<open>properties\<close> and \<open>frequency\<close> are written
  \<open>device_properties\<close> and \<open>device_frequency\<close> (the names are taken by the consumer's and
  the signal's fields).
\<close>

record TransmitReceiveDevice =
  id_antenna :: int
  device_properties :: TransmitReceiveDeviceProperties
  device_frequency :: FrequencyType
  communication_mode :: CommunicationModeType

definition TransmitReceiveDevice_init ::
  "int \<Rightarrow> TransmitReceiveDeviceProperties \<Rightarrow> TransmitReceiveDevice" where
  "TransmitReceiveDevice_init i p =
     \<lparr>id_antenna = i, device_properties = p,
      device_frequency = (frequency_range_max p + frequency_range_min p) / 2,
      communication_mode = FREE\<rparr>"

definition set_frequency :: "FrequencyType \<Rightarrow> TransmitReceiveDevice \<Rightarrow> error + TransmitReceiveDevice" where
  "set_frequency f d =
     (if f < frequency_range_min (device_properties d) then Inl FrequencyRangeError
      else if f > frequency_range_max (device_properties d) then Inl FrequencyRangeError
      else Inr (d\<lparr>device_frequency := f\<rparr>))"

text \<open>\<open>if frequency: antenna.set_frequency(frequency)\<close>\<close>

definition tune :: "FrequencyType option \<Rightarrow> TransmitReceiveDevice \<Rightarrow> error + TransmitReceiveDevice" where
  "tune freq d =
     (case freq of None \<Rightarrow> Inr d | Some f \<Rightarrow> if f = 0 then Inr d else set_frequency f d)"

text \<open>
  \<open>RelayChannel\<close>; the two devices are references to device objects, and \<open>__eq__\<close> compares
  them by identity (the device class defines no \<open>__eq__\<close>). The fields carry the prefix
  \<open>channel_\<close>, their names being taken by the listen task's fields.
\<close>

record RelayChannel =
  channel_antenna_in :: int
  channel_antenna_out :: int
  channel_id_destination_relay :: int
  channel_id_antenna_destination_relay :: "int option"
  channel_save_relayed_signals_locally_relay :: bool

section \<open>The local radio system (local\_system.py)\<close>

text \<open>
  \<open>RadiotransmissionSystem\<close>. The device objects live in \<open>antennas\<close> (the dictionary
  \<open>__antennas\<close>, keys given by \<open>add_device\<close>); the transmission list, the reception
  dictionary and the relay channels hold references to those objects, written as their
  keys. \<open>dict_reception_channel_from_prev_step\<close> holds device objects of its own (the
  result of \<open>deepcopy\<close>). The staged signals are objects no one else refers to, so they
  are values. The local consumers (\<open>__consumers\<close>) only keep lists of their own that the
  system never reads, and the unused \<open>frequency_accuracy\<close> of the local system, are left out.
  The bound global consumer is the argument \<open>g\<close> of the operations that touch it.
\<close>

record RadiotransmissionSystem =
  antennas :: "(int \<times> TransmitReceiveDevice) list"
  list_transmission_channel :: "int list"
  dict_reception_channel :: "(int \<times> int) list"
  dict_reception_channel_from_prev_step :: "(int \<times> TransmitReceiveDevice) list"
  list_relay_channel :: "RelayChannel list"
  dict_signals_to_send :: "(int \<times> Radiosignal list) list"
  dict_id_device_memory_blocks_to_receive :: "(int \<times> MemoryBlock list) list"
  duration :: "rat option"

definition RadiotransmissionSystem_init :: RadiotransmissionSystem where
  "RadiotransmissionSystem_init =
     \<lparr>antennas = [], list_transmission_channel = [], dict_reception_channel = [],
      dict_reception_channel_from_prev_step = [], list_relay_channel = [],
      dict_signals_to_send = [], dict_id_device_memory_blocks_to_receive = [],
      duration = None\<rparr>"

definition add_device ::
  "TransmitReceiveDeviceProperties \<Rightarrow> RadiotransmissionSystem \<Rightarrow> RadiotransmissionSystem" where
  "add_device p s =
     s\<lparr>antennas := antennas s @
          [(int (length (antennas s)), TransmitReceiveDevice_init (int (length (antennas s))) p)]\<rparr>"

text \<open>Mutation of the device object with key \<open>k\<close>.\<close>

definition update_antenna ::
  "int \<Rightarrow> (TransmitReceiveDevice \<Rightarrow> TransmitReceiveDevice) \<Rightarrow>
   RadiotransmissionSystem \<Rightarrow> RadiotransmissionSystem" where
  "update_antenna k f s =
     s\<lparr>antennas := map (\<lambda>(k', d). if k' = k then (k', f d) else (k', d)) (antennas s)\<rparr>"

definition set_mode ::
  "int \<Rightarrow> CommunicationModeType \<Rightarrow> RadiotransmissionSystem \<Rightarrow> RadiotransmissionSystem" where
  "set_mode k md s = update_antenna k (\<lambda>d. d\<lparr>communication_mode := md\<rparr>) s"

text \<open>
  \<open>if frequency: antenna.set_frequency(frequency)\<close> on the device object with key \<open>k\<close>; an
  exception leaves the object as it was.
\<close>

definition tune_antenna ::
  "FrequencyType option \<Rightarrow> int \<Rightarrow> RadiotransmissionSystem \<Rightarrow> error + RadiotransmissionSystem" where
  "tune_antenna freq k s =
     (case map_of (antennas s) k of
        None \<Rightarrow> Inl KeyError
      | Some d \<Rightarrow>
          (case tune freq d of
             Inl e \<Rightarrow> Inl e
           | Inr d' \<Rightarrow> Inr (update_antenna k (\<lambda>_. d') s)))"

text \<open>
  An operation of the local system returns its value or the exception it raised, together
  with the system as the call left it: what it changed before raising stays changed.
\<close>

type_synonym 'r outcome = "(error + 'r) \<times> RadiotransmissionSystem"

definition assign_device_as_transmitter ::
  "MemoryBlock \<Rightarrow> int \<Rightarrow> int \<Rightarrow> FrequencyType option \<Rightarrow> int option \<Rightarrow>
   RadiotransmissionSystem \<Rightarrow> bool outcome" where
  "assign_device_as_transmitter memory_block id_ant id_rec freq id_ant_rec s =
     (case map_of (antennas s) id_ant of
        None \<Rightarrow> (Inl KeyError, s)
      | Some antenna \<Rightarrow>
          if communication_mode antenna \<noteq> FREE \<and> communication_mode antenna \<noteq> TRANSMISSION
          then (Inl AnotherModeError, s)
          else if id_ant \<in> set (list_transmission_channel s)
                  \<and> (case freq of None \<Rightarrow> False | Some f \<Rightarrow> device_frequency antenna \<noteq> f)
          then (Inl AnotherFrequencyError, s)
          else
            (case tune_antenna freq id_ant (set_mode id_ant TRANSMISSION s) of
               Inl e \<Rightarrow> (Inl e, set_mode id_ant TRANSMISSION s)
             | Inr s' \<Rightarrow>
                 (case map_of (antennas s') id_ant of
                    None \<Rightarrow> (Inl KeyError, s')
                  | Some antenna' \<Rightarrow>
                      (Inr False,
                       s'\<lparr>dict_signals_to_send :=
                            odict_append (dict_signals_to_send s') (id_antenna antenna')
                              \<lparr>id_transmitter = - 1, id_receiver = id_rec,
                               memory = memory_block,
                               frequency = device_frequency antenna',
                               id_antenna_receiver = id_ant_rec\<rparr>,
                          list_transmission_channel :=
                            append_if_absent id_ant (list_transmission_channel s')\<rparr>))))"

definition assign_device_as_receiver ::
  "int \<Rightarrow> FrequencyType option \<Rightarrow> RadiotransmissionSystem \<Rightarrow> bool outcome" where
  "assign_device_as_receiver id_ant freq s =
     (case map_of (antennas s) id_ant of
        None \<Rightarrow> (Inl KeyError, s)
      | Some antenna \<Rightarrow>
          if communication_mode antenna \<noteq> FREE \<and> communication_mode antenna \<noteq> RECEPTION
          then (Inl AnotherModeError, s)
          else if id_ant \<in> snd ` set (dict_reception_channel s)
                  \<and> Some (device_frequency antenna) \<noteq> freq
          then (Inl AnotherFrequencyError, s)
          else
            (case tune_antenna freq id_ant (set_mode id_ant RECEPTION s) of
               Inl e \<Rightarrow> (Inl e, set_mode id_ant RECEPTION s)
             | Inr s' \<Rightarrow>
                 (Inr True,
                  s'\<lparr>dict_reception_channel :=
                       insert_if_absent id_ant id_ant (dict_reception_channel s')\<rparr>)))"

definition assign_device_as_repeater ::
  "int \<Rightarrow> int \<Rightarrow> int \<Rightarrow> int option \<Rightarrow> FrequencyType option \<Rightarrow> FrequencyType option \<Rightarrow> bool \<Rightarrow>
   RadiotransmissionSystem \<Rightarrow> bool outcome" where
  "assign_device_as_repeater id_in id_out id_dest id_ant_dest freq_in freq_out save s =
     (case map_of (antennas s) id_in of
        None \<Rightarrow> (Inl KeyError, s)
      | Some antenna_in \<Rightarrow>
     (case map_of (antennas s) id_out of
        None \<Rightarrow> (Inl KeyError, s)
      | Some antenna_out \<Rightarrow>
          if communication_mode antenna_in \<noteq> FREE \<and> communication_mode antenna_in \<noteq> RELAYING_IN
          then (Inl AnotherModeError, s)
          else if communication_mode antenna_in \<noteq> FREE
                  \<and> communication_mode antenna_in \<noteq> RELAYING_OUT
          then (Inl AnotherModeError, s)
          else if id_in \<in> set (map channel_antenna_in (list_relay_channel s))
                  \<and> device_frequency antenna_in \<noteq> 0
          then (Inl AnotherFrequencyError, s)
          else if id_out \<in> set (map channel_antenna_out (list_relay_channel s))
                  \<and> device_frequency antenna_out \<noteq> 0
          then (Inl AnotherFrequencyError, s)
          else
            (case tune_antenna freq_in id_in
                    (set_mode id_out RELAYING_OUT (set_mode id_in RELAYING_IN s)) of
               Inl e \<Rightarrow> (Inl e, set_mode id_out RELAYING_OUT (set_mode id_in RELAYING_IN s))
             | Inr s' \<Rightarrow>
                 (case tune_antenna freq_out id_out s' of
                    Inl e \<Rightarrow> (Inl e, s')
                  | Inr s'' \<Rightarrow>
                      (Inr True,
                       s''\<lparr>list_relay_channel :=
                             append_if_absent
                               \<lparr>channel_antenna_in = id_in, channel_antenna_out = id_out,
                                channel_id_destination_relay = id_dest,
                                channel_id_antenna_destination_relay = id_ant_dest,
                                channel_save_relayed_signals_locally_relay = save\<rparr>
                               (list_relay_channel s'')\<rparr>)))))"


text \<open>
  \<open>imitation_step\<close> of the local system works on the store of signal objects, the bound
  global consumer and the system; an exception leaves all three as they were at that point.
\<close>

type_synonym world = "heap \<times> RadioTransmissionMediumConsumer \<times> RadiotransmissionSystem"

text \<open>
  \<open>signal.memory.size / duration\<close> is Python's true division of an \<open>int\<close> by the step's
  duration: it gives a float, rounded, or raises (\<open>ZeroDivisionError\<close>, \<open>OverflowError\<close>).
  The model does not fix that arithmetic. \<open>imitation_step\<close> and \<open>finalize_step\<close> take the
  division as their first argument, a function from the size and the duration to the
  quotient or the exception, and what is proved of them holds for every such function. The
  comparison of a capacity with a quotient is the order of the numbers.
\<close>

type_synonym true_division = "int \<Rightarrow> rat \<Rightarrow> error + rat"

text \<open>
  The inner loop \<open>for signal in self.__dict_signals_to_send[id_antenna]\<close> for the device
  with key \<open>k\<close>, whose transmit capacity is \<open>cap\<close>.
\<close>

fun send_staged ::
  "true_division \<Rightarrow> rat \<Rightarrow> int \<Rightarrow> rat \<Rightarrow> Radiosignal list \<Rightarrow> world \<Rightarrow> (error + unit) \<times> world" where
  "send_staged dv dur k cap [] w = (Inr (), w)"
| "send_staged dv dur k cap (sg # rest) (h, g, s) =
     (case dv (block_size (memory sg)) dur of
        Inl e \<Rightarrow> (Inl e, (h, g, s))
      | Inr q \<Rightarrow>
          if cap \<ge> q
          then
            (case send_signal (id_receiver sg) (memory sg) (Some (frequency sg))
                    (id_antenna_receiver sg) h g of
               (sent, h', g') \<Rightarrow>
                 send_staged dv dur k cap rest (h', g', set_mode k TRANSMISSION s))
          else (Inl CapacityError, (h, g, s)))"

text \<open>The outer loop \<open>for id_antenna in self.__dict_signals_to_send\<close>.\<close>

fun send_all ::
  "true_division \<Rightarrow> rat \<Rightarrow> (int \<times> Radiosignal list) list \<Rightarrow> world \<Rightarrow> (error + unit) \<times> world" where
  "send_all dv dur [] w = (Inr (), w)"
| "send_all dv dur ((k, sigs) # rest) (h, g, s) =
     (case map_of (antennas s) k of
        None \<Rightarrow> (Inl KeyError, (h, g, s))
      | Some antenna \<Rightarrow>
          (case send_staged dv dur k (channel_capacity_transmit (device_properties antenna)) sigs
                  (h, g, s) of
             (Inl e, w) \<Rightarrow> (Inl e, w)
           | (Inr u, w) \<Rightarrow> send_all dv dur rest w))"

text \<open>
  \<open>for antenna in self.dict_reception_channel.values()\<close>, over the references held there.
  A reference to no device cannot occur in the source; the model gives it \<open>KeyError\<close>.
\<close>

fun listen_all :: "int list \<Rightarrow> world \<Rightarrow> (error + unit) \<times> world" where
  "listen_all [] w = (Inr (), w)"
| "listen_all (r # rest) (h, g, s) =
     (case map_of (antennas s) r of
        None \<Rightarrow> (Inl KeyError, (h, g, s))
      | Some antenna \<Rightarrow>
          listen_all rest
            (h, snd (listen_ether (id_antenna antenna) (Some (device_frequency antenna)) g),
             set_mode r RECEPTION s))"

text \<open>\<open>for channel in self.list_relay_channel\<close>\<close>

fun relay_all :: "RelayChannel list \<Rightarrow> world \<Rightarrow> (error + unit) \<times> world" where
  "relay_all [] w = (Inr (), w)"
| "relay_all (ch # rest) (h, g, s) =
     (case map_of (antennas s) (channel_antenna_in ch) of
        None \<Rightarrow> (Inl KeyError, (h, g, s))
      | Some antenna_in \<Rightarrow>
     (case map_of (antennas s) (channel_antenna_out ch) of
        None \<Rightarrow> (Inl KeyError, (h, g, s))
      | Some antenna_out \<Rightarrow>
          relay_all rest
            (h,
             snd (i_am_repeater (channel_id_destination_relay ch) (id_antenna antenna_in)
                    (channel_id_antenna_destination_relay ch)
                    (Some (device_frequency antenna_in)) (Some (device_frequency antenna_out))
                    (channel_save_relayed_signals_locally_relay ch) g),
             set_mode (channel_antenna_out ch) RELAYING_OUT
               (set_mode (channel_antenna_in ch) RELAYING_IN s))))"

text \<open>
  \<open>deepcopy(self.dict_reception_channel)\<close>: each reference is replaced by a copy of the
  device object as it is now.
\<close>

fun deepcopy_reception ::
  "(int \<times> int) list \<Rightarrow> RadiotransmissionSystem \<Rightarrow> (int \<times> TransmitReceiveDevice) list" where
  "deepcopy_reception [] s = []"
| "deepcopy_reception ((k, r) # rest) s =
     (case map_of (antennas s) r of
        None \<Rightarrow> deepcopy_reception rest s
      | Some d \<Rightarrow> (k, d) # deepcopy_reception rest s)"

text \<open>The end of \<open>imitation_step\<close>: the snapshot, then the clearing of the per-step state.\<close>

definition end_of_step :: "RadiotransmissionSystem \<Rightarrow> RadiotransmissionSystem" where
  "end_of_step s =
     s\<lparr>dict_reception_channel_from_prev_step :=
          deepcopy_reception (dict_reception_channel s) s,
       dict_id_device_memory_blocks_to_receive := [],
       dict_signals_to_send := [],
       list_transmission_channel := [],
       dict_reception_channel := [],
       list_relay_channel := [],
       antennas := map (\<lambda>(k, d). (k, d\<lparr>communication_mode := FREE\<rparr>)) (antennas s)\<rparr>"

definition imitation_step ::
  "true_division \<Rightarrow> rat \<Rightarrow> world \<Rightarrow> (error + unit) \<times> world" where
  "imitation_step dv dur w =
     (case w of (h, g, s) \<Rightarrow>
        (case send_all dv dur (dict_signals_to_send s) (h, g, s\<lparr>duration := Some dur\<rparr>) of
           (Inl e, w1) \<Rightarrow> (Inl e, w1)
         | (Inr u, (h1, g1, s1)) \<Rightarrow>
             (case listen_all (map snd (dict_reception_channel s1)) (h1, g1, s1) of
                (Inl e, w2) \<Rightarrow> (Inl e, w2)
              | (Inr u, (h2, g2, s2)) \<Rightarrow>
                  (case relay_all (list_relay_channel s2) (h2, g2, s2) of
                     (Inl e, w3) \<Rightarrow> (Inl e, w3)
                   | (Inr u, (h3, g3, s3)) \<Rightarrow> (Inr (), (h3, g3, end_of_step s3))))))"

text \<open>
  \<open>finalize_step\<close>. The inner loop runs over the signal objects that \<open>receive_signal\<close>
  returned for the snapshot device \<open>antenna\<close> stored under \<open>k\<close>; \<open>self.__duration\<close> is
  \<open>None\<close> until the first \<open>imitation_step\<close>, and dividing by it is a \<open>TypeError\<close>.
\<close>

fun receive_all ::
  "true_division \<Rightarrow> heap \<Rightarrow> int \<Rightarrow> TransmitReceiveDevice \<Rightarrow> addr list \<Rightarrow>
   RadiotransmissionSystem \<Rightarrow> unit outcome" where
  "receive_all dv h k antenna [] s = (Inr (), s)"
| "receive_all dv h k antenna (a # rest) s =
     (if id_antenna_receiver (h ! a) = Some k
      then
        (case duration s of
           None \<Rightarrow> (Inl TypeError, s)
         | Some dur \<Rightarrow>
             (case dv (block_size (memory (h ! a))) dur of
                Inl e \<Rightarrow> (Inl e, s)
              | Inr q \<Rightarrow>
                  if channel_capacity_receive (device_properties antenna) \<ge> q
                  then receive_all dv h k antenna rest
                         (s\<lparr>dict_id_device_memory_blocks_to_receive :=
                              odict_append (dict_id_device_memory_blocks_to_receive s) k
                                (memory (h ! a))\<rparr>)
                  else receive_all dv h k antenna rest s))
      else receive_all dv h k antenna rest s)"

fun finalize_loop ::
  "true_division \<Rightarrow> heap \<Rightarrow> RadioTransmissionMediumConsumer \<Rightarrow>
   (int \<times> TransmitReceiveDevice) list \<Rightarrow> RadiotransmissionSystem \<Rightarrow> unit outcome" where
  "finalize_loop dv h g [] s = (Inr (), s)"
| "finalize_loop dv h g ((k, antenna) # rest) s =
     (case receive_all dv h k antenna (receive_signal (Some (device_frequency antenna)) g) s of
        (Inl e, s') \<Rightarrow> (Inl e, s')
      | (Inr u, s') \<Rightarrow> finalize_loop dv h g rest s')"

definition finalize_step ::
  "true_division \<Rightarrow> heap \<Rightarrow> RadioTransmissionMediumConsumer \<Rightarrow> RadiotransmissionSystem \<Rightarrow>
   unit outcome" where
  "finalize_step dv h g s = finalize_loop dv h g (dict_reception_channel_from_prev_step s) s"

text \<open>\<open>get_antennas_signals\<close>, the read accessor over the results of \<open>finalize_step\<close>.\<close>

definition odict_get :: "(int \<times> 'a list) list \<Rightarrow> int \<Rightarrow> 'a list" where
  "odict_get d k = (case map_of d k of None \<Rightarrow> [] | Some l \<Rightarrow> l)"

definition get_antennas_signals :: "int \<Rightarrow> RadiotransmissionSystem \<Rightarrow> MemoryBlock list" where
  "get_antennas_signals k s = odict_get (dict_id_device_memory_blocks_to_receive s) k"


section \<open>Vocabulary of the statements\<close>

text \<open>
  A listen task matches a signal when its antenna id is set and both tests of
  \<open>add_signal\<close> succeed.
\<close>

definition matches :: "RadioTransmissionMediumSystem \<Rightarrow> Radiosignal \<Rightarrow> ListenEtherTask \<Rightarrow> bool" where
  "matches m s l =
     (case task_id_antenna_receiver l of
        None \<Rightarrow> False
      | Some ant \<Rightarrow>
          can_consumer_receive_signal_by_frequency m (frequency s) (frequency_recipiency l) \<and>
          can_consumer_receive_signal_by_antenna (id_antenna_receiver s) ant)"

text \<open>
  The (endpoint, frequency-bucket) pairs of a medium, one for each active task of each
  consumer, and those of them whose dedup cache does not hold the object \<open>a\<close> yet.
\<close>

definition bucket_list :: "RadioTransmissionMediumSystem \<Rightarrow> (int \<times> int) list" where
  "bucket_list m =
     concat (map (\<lambda>(rid, c). map (\<lambda>t. (rid, py_int (frequency_recipiency t)))
                                 (listen_ether_tasks c)) (consumers m))"

definition unvisited :: "RadioTransmissionMediumSystem \<Rightarrow> addr \<Rightarrow> (int \<times> int) set" where
  "unvisited m a =
     {(rid, key) \<in> set (bucket_list m). a \<notin> set (getting_information m rid key)}"

text \<open>The registered ids with their task lists, which \<open>add_signal\<close> never changes.\<close>

definition shape :: "RadioTransmissionMediumSystem \<Rightarrow> (int \<times> ListenEtherTask list) list" where
  "shape m = map (\<lambda>(k, c). (k, listen_ether_tasks c)) (consumers m)"

definition grows :: "RadioTransmissionMediumSystem \<Rightarrow> RadioTransmissionMediumSystem \<Rightarrow> bool" where
  "grows m m' =
     (shape m' = shape m \<and>
      (\<forall>r k. set (getting_information m r k) \<subseteq> set (getting_information m' r k)))"

section \<open>Scenarios\<close>

definition listen_task :: "FrequencyType \<Rightarrow> int \<Rightarrow> ListenEtherTask" where
  "listen_task f ant =
     \<lparr>frequency_recipiency = f, task_id_antenna_receiver = Some ant,
      frequency_transmission_relay = None, id_destination_relay = None,
      id_antenna_destination_relay = None, save_relayed_signals_locally_relay = False\<rparr>"

definition relay_task ::
  "FrequencyType \<Rightarrow> int \<Rightarrow> int \<Rightarrow> FrequencyType \<Rightarrow> int option \<Rightarrow> bool \<Rightarrow> ListenEtherTask" where
  "relay_task f ant dest fo dant sv =
     \<lparr>frequency_recipiency = f, task_id_antenna_receiver = Some ant,
      frequency_transmission_relay = Some fo, id_destination_relay = Some dest,
      id_antenna_destination_relay = dant, save_relayed_signals_locally_relay = sv\<rparr>"

definition consumer_with ::
  "int \<Rightarrow> FrequencyType \<Rightarrow> ListenEtherTask list \<Rightarrow> RadioTransmissionMediumConsumer" where
  "consumer_with i f ts =
     (RadioTransmissionMediumConsumer_init \<lparr>consumer_frequency = f, id_consumer = i\<rparr>)
       \<lparr>listen_ether_tasks := ts\<rparr>"

definition signal_to :: "int \<Rightarrow> FrequencyType \<Rightarrow> int \<Rightarrow> Radiosignal" where
  "signal_to rcv f ant =
     \<lparr>id_transmitter = 9, id_receiver = rcv,
      memory = \<lparr>memory_id = 121, block_start = 3, block_end = 4\<rparr>,
      frequency = f, id_antenna_receiver = Some ant\<rparr>"

text \<open>
  Two endpoints relaying to each other: endpoint 1 forwards what its antenna 0 hears at 100
  to antenna 0 of endpoint 2 at 100, and endpoint 2 does the same towards endpoint 1.
\<close>

definition pingpong :: RadioTransmissionMediumSystem where
  "pingpong =
     \<lparr>consumers = [(1, consumer_with 1 100 [relay_task 100 0 2 100 (Some 0) False]),
                   (2, consumer_with 2 100 [relay_task 100 0 1 100 (Some 0) False])],
      frequency_accuracy = 10\<rparr>"

definition pingpong_after :: RadioTransmissionMediumSystem where
  "pingpong_after =
     \<lparr>consumers =
        [(1, (consumer_with 1 100 [relay_task 100 0 2 100 (Some 0) False])
               \<lparr>dict_getting_information := [100 \<mapsto> [0]]\<rparr>),
         (2, (consumer_with 2 100 [relay_task 100 0 1 100 (Some 0) False])
               \<lparr>dict_getting_information := [100 \<mapsto> [0]]\<rparr>)],
      frequency_accuracy = 10\<rparr>"

text \<open>The inbox bucket of the consumer with key \<open>rid\<close>, read through the medium.\<close>

definition signal_to_receive :: "RadioTransmissionMediumSystem \<Rightarrow> int \<Rightarrow> int \<Rightarrow> addr list" where
  "signal_to_receive m rid key =
     (case map_of (consumers m) rid of
        None \<Rightarrow> []
      | Some c \<Rightarrow> dict_get (dict_frequency_signal_to_receive c) key)"

text \<open>One endpoint listening at 100 on its antenna 0.\<close>

definition one_listener :: RadioTransmissionMediumSystem where
  "one_listener =
     \<lparr>consumers = [(1, consumer_with 1 100 [listen_task 100 0])], frequency_accuracy = 10\<rparr>"

text \<open>
  Endpoint 1 relays what its antenna 0 hears at 115 to antenna 0 of endpoint 2 at 100, and
  listens itself at 100 on the same antenna; endpoint 2 listens at 100.
\<close>

definition boundary_relay :: RadioTransmissionMediumSystem where
  "boundary_relay =
     \<lparr>consumers = [(1, consumer_with 1 100 [relay_task 115 0 2 100 (Some 0) False, listen_task 100 0]),
                   (2, consumer_with 2 100 [listen_task 100 0])],
      frequency_accuracy = 10\<rparr>"

definition boundary_relay_after :: RadioTransmissionMediumSystem where
  "boundary_relay_after =
     \<lparr>consumers =
        [(1, (consumer_with 1 100 [relay_task 115 0 2 100 (Some 0) False, listen_task 100 0])
               \<lparr>dict_frequency_signal_to_receive := [100 \<mapsto> [0]],
                dict_getting_information := [115 \<mapsto> [0], 100 \<mapsto> [0]]\<rparr>),
         (2, (consumer_with 2 100 [listen_task 100 0])
               \<lparr>dict_frequency_signal_to_receive := [100 \<mapsto> [0]],
                dict_getting_information := [100 \<mapsto> [0]]\<rparr>)],
      frequency_accuracy = 10\<rparr>"

text \<open>A consumer that has registered one relay task.\<close>

definition repeater_once :: RadioTransmissionMediumConsumer where
  "repeater_once = snd (i_am_repeater 2 0 (Some 0) (Some 100) (Some 150) False (consumer_with 1 100 []))"

definition block :: MemoryBlock where
  "block = \<lparr>memory_id = 121, block_start = 3, block_end = 4\<rparr>"

text \<open>
  Some task of \<open>ts\<close> with bucket key \<open>k\<close> matches the signal object \<open>a\<close>, and the dedup
  cache of that bucket holds no signal equal to it.
\<close>

definition fresh_hit ::
  "RadioTransmissionMediumSystem \<Rightarrow> heap \<Rightarrow> addr \<Rightarrow> int \<Rightarrow> ListenEtherTask list \<Rightarrow> int \<Rightarrow> bool" where
  "fresh_hit m h a rid ts k =
     ((\<exists>t \<in> set ts. matches m (h ! a) t \<and> py_int (frequency_recipiency t) = k) \<and>
      \<not> signal_in h a (getting_information m rid k))"

text \<open>
  Endpoint 2 relays what its antenna 1 hears at 100 to antenna 0 of endpoint 3 at 150 and
  keeps a local copy; endpoint 3 listens at 150 on antenna 0.
\<close>

definition relay_keep :: RadioTransmissionMediumSystem where
  "relay_keep =
     \<lparr>consumers = [(2, consumer_with 2 100 [relay_task 100 1 3 150 (Some 0) True]),
                   (3, consumer_with 3 150 [listen_task 150 0])],
      frequency_accuracy = 10\<rparr>"

definition relay_keep_after :: RadioTransmissionMediumSystem where
  "relay_keep_after =
     \<lparr>consumers = [(2, (consumer_with 2 100 [relay_task 100 1 3 150 (Some 0) True])
                         \<lparr>dict_frequency_signal_to_receive := [100 \<mapsto> [0]],
                          dict_getting_information := [100 \<mapsto> [0]]\<rparr>),
                   (3, (consumer_with 3 150 [listen_task 150 0])
                         \<lparr>dict_frequency_signal_to_receive := [150 \<mapsto> [0]],
                          dict_getting_information := [150 \<mapsto> [0]]\<rparr>)],
      frequency_accuracy = 10\<rparr>"

text \<open>
  Endpoint 1 has a listen task and a relay task on the same antenna and frequency;
  endpoint 2, the relay destination, listens on the relay's output frequency.
\<close>

definition same_bucket :: RadioTransmissionMediumSystem where
  "same_bucket =
     \<lparr>consumers = [(1, consumer_with 1 100 [listen_task 100 0, relay_task 100 0 2 150 (Some 0) False]),
                   (2, consumer_with 2 150 [listen_task 150 0])],
      frequency_accuracy = 10\<rparr>"

definition same_bucket_after :: RadioTransmissionMediumSystem where
  "same_bucket_after =
     \<lparr>consumers = [(1, (consumer_with 1 100 [listen_task 100 0, relay_task 100 0 2 150 (Some 0) False])
                         \<lparr>dict_frequency_signal_to_receive := [100 \<mapsto> [0]],
                          dict_getting_information := [100 \<mapsto> [0]]\<rparr>),
                   (2, consumer_with 2 150 [listen_task 150 0])],
      frequency_accuracy = 10\<rparr>"

text \<open>
  Endpoint 1 listens on antenna 0 at 100, at 105 and at 100.5; the first and the third
  task share the bucket 100.
\<close>

definition two_buckets :: RadioTransmissionMediumSystem where
  "two_buckets =
     \<lparr>consumers =
        [(1, consumer_with 1 100 [listen_task 100 0, listen_task 105 0, listen_task (201 / 2) 0])],
      frequency_accuracy = 10\<rparr>"

definition two_buckets_after :: RadioTransmissionMediumSystem where
  "two_buckets_after =
     \<lparr>consumers =
        [(1, (consumer_with 1 100 [listen_task 100 0, listen_task 105 0, listen_task (201 / 2) 0])
               \<lparr>dict_frequency_signal_to_receive := [100 \<mapsto> [0], 105 \<mapsto> [0]],
                dict_getting_information := [100 \<mapsto> [0], 105 \<mapsto> [0]]\<rparr>)],
      frequency_accuracy = 10\<rparr>"

text \<open>
  A device as the repository's test sets it up (capacities 100, range 50 to 200), and a
  local system with two such devices, ids 0 and 1.
\<close>

definition antenna_properties :: TransmitReceiveDeviceProperties where
  "antenna_properties =
     \<lparr>channel_capacity_transmit = 100, channel_capacity_receive = 100,
      frequency_range_min = 50, frequency_range_max = 200, consumption = 10,
      consumption_transmission = Some 10, consumption_reception = Some 10\<rparr>"

definition two_devices :: RadiotransmissionSystem where
  "two_devices = add_device antenna_properties (add_device antenna_properties RadiotransmissionSystem_init)"

text \<open>
  What \<open>finalize_step\<close> keeps for the snapshot device \<open>d\<close> stored under \<open>k\<close>: the memory
  blocks of the signals in the inbox bucket of the device's frequency that are addressed to
  antenna \<open>k\<close> and whose \<open>memory.size / duration\<close> is within the receive capacity.
\<close>

definition pulled ::
  "true_division \<Rightarrow> heap \<Rightarrow> RadioTransmissionMediumConsumer \<Rightarrow> rat \<Rightarrow> int \<Rightarrow>
   TransmitReceiveDevice \<Rightarrow> MemoryBlock list" where
  "pulled dv h g dur k d =
     map (\<lambda>a. memory (h ! a))
       (filter (\<lambda>a. id_antenna_receiver (h ! a) = Some k \<and>
                    (case dv (block_size (memory (h ! a))) dur of
                       Inl e \<Rightarrow> False
                     | Inr q \<Rightarrow> channel_capacity_receive (device_properties d) \<ge> q))
          (receive_signal (Some (device_frequency d)) g))"



definition inbox_divide ::
  "true_division \<Rightarrow> heap \<Rightarrow> RadioTransmissionMediumConsumer \<Rightarrow> rat \<Rightarrow>
   (int \<times> TransmitReceiveDevice) list \<Rightarrow> bool" where
  "inbox_divide dv h g dur snap =
     (\<forall>(k, d) \<in> set snap. \<forall>a \<in> set (receive_signal (Some (device_frequency d)) g).
        id_antenna_receiver (h ! a) = Some k \<longrightarrow>
        (\<exists>q. dv (block_size (memory (h ! a))) dur = Inr q))"

text \<open>The devices of two systems have the same keys and properties.\<close>

definition same_properties :: "RadiotransmissionSystem \<Rightarrow> RadiotransmissionSystem \<Rightarrow> bool" where
  "same_properties s s' =
     (\<forall>k. map_option device_properties (map_of (antennas s') k) =
          map_option device_properties (map_of (antennas s) k))"

text \<open>
  A block of size 1000 staged on device 0 (capacity 100); and a system that assigned
  device 0 as a receiver at 100 and made its step of duration 1, with the inbox of its
  global consumer holding a block of size 1 and one of size 1000 for antenna 0.
\<close>

definition big_block :: MemoryBlock where
  "big_block = \<lparr>memory_id = 7, block_start = 0, block_end = 1000\<rparr>"


text \<open>
  A division for the scenarios: exact, as Python's is on the sizes and durations used in
  them (small integers divided by 1).
\<close>

definition exact_division :: true_division where
  "exact_division n d = (if d = 0 then Inl ZeroDivisionError else Inr (of_int n / d))"

definition global_1 :: RadioTransmissionMediumConsumer where
  "global_1 = consumer_with 1 100 []"

definition after_step :: RadiotransmissionSystem where
  "after_step =
     snd (snd (snd (imitation_step exact_division 1
       ([], global_1, snd (assign_device_as_receiver 0 (Some 100) two_devices)))))"

definition inbox_1 :: RadioTransmissionMediumConsumer where
  "inbox_1 = global_1\<lparr>dict_frequency_signal_to_receive := [100 \<mapsto> [0, 1]]\<rparr>"

definition arrived :: heap where
  "arrived =
     [\<lparr>id_transmitter = 2, id_receiver = 1, memory = block, frequency = 100,
       id_antenna_receiver = Some 0\<rparr>,
      \<lparr>id_transmitter = 2, id_receiver = 1, memory = big_block, frequency = 100,
       id_antenna_receiver = Some 0\<rparr>]"

text \<open>
  The three assignment operations as one call each, with its arguments; and a sequence of
  such calls made one after the other, each on the system as the call before left it
  (also when that call raised).
\<close>

datatype assignment =
    AsTransmitter MemoryBlock int int "FrequencyType option" "int option"
  | AsReceiver int "FrequencyType option"
  | AsRepeater int int int "int option" "FrequencyType option" "FrequencyType option" bool

fun assign :: "assignment \<Rightarrow> RadiotransmissionSystem \<Rightarrow> bool outcome" where
  "assign (AsTransmitter mem ia ir f iar) s = assign_device_as_transmitter mem ia ir f iar s"
| "assign (AsReceiver ia f) s = assign_device_as_receiver ia f s"
| "assign (AsRepeater id_in id_out id_dest id_ant_dest f_in f_out save) s =
     assign_device_as_repeater id_in id_out id_dest id_ant_dest f_in f_out save s"

definition reassign :: "assignment list \<Rightarrow> RadiotransmissionSystem \<Rightarrow> RadiotransmissionSystem" where
  "reassign as s = foldl (\<lambda>s a. snd (assign a s)) s as"

text \<open>
  A device but for its \<open>communication_mode\<close>, and a dictionary of devices but for their
  modes. \<open>same_configuration\<close>: two systems have the same devices but for their modes, the
  same reception dictionary and the same duration.
\<close>

definition erase_mode :: "TransmitReceiveDevice \<Rightarrow> TransmitReceiveDevice" where
  "erase_mode d = d\<lparr>communication_mode := FREE\<rparr>"

definition modeless :: "(int \<times> TransmitReceiveDevice) list \<Rightarrow> (int \<times> TransmitReceiveDevice) list" where
  "modeless ds = map (\<lambda>(k, d). (k, erase_mode d)) ds"

definition same_configuration :: "RadiotransmissionSystem \<Rightarrow> RadiotransmissionSystem \<Rightarrow> bool" where
  "same_configuration s s' =
     (modeless (antennas s') = modeless (antennas s) \<and>
      dict_reception_channel s' = dict_reception_channel s \<and>
      duration s' = duration s)"

text \<open>
  What \<open>finalize_step\<close> reads of the system is the same in both: the snapshot of the
  reception dictionary, the received blocks and the duration.
\<close>

definition kept :: "RadiotransmissionSystem \<Rightarrow> RadiotransmissionSystem \<Rightarrow> bool" where
  "kept s s' =
     (dict_reception_channel_from_prev_step s' = dict_reception_channel_from_prev_step s \<and>
      dict_id_device_memory_blocks_to_receive s' = dict_id_device_memory_blocks_to_receive s \<and>
      duration s' = duration s)"

text \<open>The system of two devices with device 0 assigned as a receiver at 100.\<close>

definition receiving :: RadiotransmissionSystem where
  "receiving = snd (assign_device_as_receiver 0 (Some 100) two_devices)"

section \<open>Properties of the medium\<close>

lemma bucket_list_shape:
  "bucket_list m =
     concat (map (\<lambda>(rid, ts). map (\<lambda>t. (rid, py_int (frequency_recipiency t))) ts) (shape m))"
  by (simp add: bucket_list_def shape_def comp_def case_prod_unfold)

lemma map_of_update_consumer:
  "map_of (consumers (update_consumer rid f m)) k =
     (if k = rid then map_option f (map_of (consumers m) rid) else map_of (consumers m) k)"
proof -
  have "map_of (map (\<lambda>(k, c). if k = rid then (k, f c) else (k, c)) xs) k =
     (if k = rid then map_option f (map_of xs rid) else map_of xs k)" for xs
    by (induction xs) auto
  then show ?thesis by (simp add: update_consumer_def)
qed

lemma shape_update_consumer:
  "(\<And>c. listen_ether_tasks (f c) = listen_ether_tasks c) \<Longrightarrow>
   shape (update_consumer rid f m) = shape m"
  by (auto simp: shape_def update_consumer_def)

lemma accuracy_update_consumer [simp]:
  "frequency_accuracy (update_consumer rid f m) = frequency_accuracy m"
  by (simp add: update_consumer_def)

lemma shape_record_signal [simp]: "shape (record_signal rid key a m) = shape m"
  by (simp add: record_signal_def shape_update_consumer)

lemma shape_deposit_signal [simp]: "shape (deposit_signal rid key a m) = shape m"
  by (simp add: deposit_signal_def shape_update_consumer)

lemma getting_information_deposit [simp]:
  "getting_information (deposit_signal rid key a m) r k = getting_information m r k"
  by (auto simp: getting_information_def deposit_signal_def map_of_update_consumer
           split: option.splits)

lemma getting_information_record:
  "getting_information (record_signal rid key a m) r k =
     (if r = rid \<and> k = key \<and> map_of (consumers m) rid \<noteq> None
      then getting_information m rid key @ [a] else getting_information m r k)"
  by (auto simp: getting_information_def record_signal_def map_of_update_consumer
                 dict_get_def dict_append_def split: option.splits)

lemma accuracy_record [simp]: "frequency_accuracy (record_signal rid key a m) = frequency_accuracy m"
  by (simp add: record_signal_def)

lemma accuracy_deposit [simp]: "frequency_accuracy (deposit_signal rid key a m) = frequency_accuracy m"
  by (simp add: deposit_signal_def)

lemma grows_refl [simp]: "grows m m"
  by (simp add: grows_def)

lemma grows_trans: "grows m m' \<Longrightarrow> grows m' m'' \<Longrightarrow> grows m m''"
  unfolding grows_def by (metis subset_trans)

lemma grows_record [simp]: "grows m (record_signal rid key a m)"
  by (auto simp: grows_def getting_information_record)

lemma grows_deposit [simp]: "grows m (deposit_signal rid key a m)"
  by (auto simp: grows_def)

lemma grows_relay_medium [simp]: "grows m (relay_medium l rid a m)"
  by (auto simp: relay_medium_def intro: grows_trans [OF grows_record grows_deposit])

lemma add_signal_loop_Cons_cases:
  assumes "add_signal_loop n a rid (l # rest) h m = Some (Inr (h', m'))"
  obtains
    (skip) "add_signal_loop n a rid rest h m = Some (Inr (h', m'))"
  | (terminal)
      "matches m (h ! a) l"
      "\<not> signal_in h a (getting_information m rid (py_int (frequency_recipiency l)))"
      "id_destination_relay l = None"
      "add_signal_loop n a rid rest h
         (deposit_signal rid (py_int (frequency_recipiency l)) a
            (record_signal rid (py_int (frequency_recipiency l)) a m)) = Some (Inr (h', m'))"
  | (relay) dest ft h1 m1 where
      "matches m (h ! a) l"
      "\<not> signal_in h a (getting_information m rid (py_int (frequency_recipiency l)))"
      "id_destination_relay l = Some dest"
      "frequency_transmission_relay l = Some ft"
      "add_signal n a (retarget dest ft (id_antenna_destination_relay l) a h)
         (relay_medium l rid a m) = Some (Inr (h1, m1))"
      "add_signal_loop n a rid rest h1 m1 = Some (Inr (h', m'))"
  using assms
  by (simp add: matches_def relay_medium_def split: option.splits if_splits sum.splits prod.splits)

lemma add_signal_loop_grows_step:
  assumes S: "\<And>h m h' m'. add_signal n a h m = Some (Inr (h', m')) \<Longrightarrow> grows m m'"
  shows "add_signal_loop n a rid ls h m = Some (Inr (h', m')) \<Longrightarrow> grows m m'"
proof (induction ls arbitrary: h m)
  case Nil
  then show ?case by simp
next
  case (Cons l rest)
  from Cons.prems show ?case
  proof (cases rule: add_signal_loop_Cons_cases)
    case skip
    then show ?thesis by (rule Cons.IH)
  next
    case terminal
    from Cons.IH [OF terminal(4)] show ?thesis
      by (blast intro: grows_trans grows_record grows_deposit)
  next
    case (relay dest ft h1 m1)
    have "grows m (relay_medium l rid a m)" by simp
    moreover have "grows (relay_medium l rid a m) m1" by (rule S [OF relay(5)])
    moreover have "grows m1 m'" by (rule Cons.IH [OF relay(6)])
    ultimately show ?thesis by (blast intro: grows_trans)
  qed
qed

lemma add_signal_grows:
  "add_signal n a h m = Some (Inr (h', m')) \<Longrightarrow> grows m m'"
proof (induction n arbitrary: h m h' m')
  case 0
  then show ?case by simp
next
  case (Suc n)
  from Suc.prems show ?case
    by (auto split: option.splits dest: add_signal_loop_grows_step [OF Suc.IH, rotated])
qed

lemma add_signal_loop_grows:
  "add_signal_loop n a rid ls h m = Some (Inr (h', m')) \<Longrightarrow> grows m m'"
  by (rule add_signal_loop_grows_step [OF add_signal_grows])


lemma bucket_list_grows: "grows m m' \<Longrightarrow> bucket_list m' = bucket_list m"
  by (simp add: grows_def bucket_list_shape)

lemma unvisited_grows: "grows m m' \<Longrightarrow> unvisited m' a \<subseteq> unvisited m a"
  using bucket_list_grows [of m m'] by (auto simp: unvisited_def grows_def)

lemma finite_unvisited [simp]: "finite (unvisited m a)"
proof -
  have "unvisited m a \<subseteq> set (bucket_list m)" by (auto simp: unvisited_def)
  then show ?thesis by (rule finite_subset) simp
qed

lemma card_unvisited_grows: "grows m m' \<Longrightarrow> card (unvisited m' a) \<le> card (unvisited m a)"
  by (simp add: card_mono unvisited_grows)

lemma bucket_registered:
  "(rid, key) \<in> set (bucket_list m) \<Longrightarrow> map_of (consumers m) rid \<noteq> None"
proof -
  assume "(rid, key) \<in> set (bucket_list m)"
  then have "rid \<in> fst ` set (consumers m)"
    by (force simp: bucket_list_def)
  then show ?thesis by (simp add: map_of_eq_None_iff)
qed

lemma card_unvisited_record:
  assumes b: "(rid, key) \<in> set (bucket_list m)"
    and n: "a \<notin> set (getting_information m rid key)"
    and g: "grows (record_signal rid key a m) m'"
  shows "card (unvisited m' a) < card (unvisited m a)"
proof -
  have reg: "map_of (consumers m) rid \<noteq> None" using b by (rule bucket_registered)
  have "a \<in> set (getting_information (record_signal rid key a m) rid key)"
    using reg by (simp add: getting_information_record)
  then have "a \<in> set (getting_information m' rid key)"
    using g by (auto simp: grows_def)
  then have out: "(rid, key) \<notin> unvisited m' a" by (simp add: unvisited_def)
  have "grows m m'" using grows_record g by (rule grows_trans)
  then have sub: "unvisited m' a \<subseteq> unvisited m a" by (rule unvisited_grows)
  have "(rid, key) \<in> unvisited m a" using b n by (simp add: unvisited_def)
  with out sub have "unvisited m' a \<subset> unvisited m a" by blast
  then show ?thesis by (simp add: psubset_card_mono)
qed

lemma not_signal_in_notin: "\<not> signal_in h a l \<Longrightarrow> a \<notin> set l"
  by (auto simp: signal_in_def list_ex_iff)

lemma grows_record_relay_medium: "grows (record_signal rid (py_int (frequency_recipiency l)) a m) (relay_medium l rid a m)"
  by (simp add: relay_medium_def)

lemma add_signal_loop_progress_step:
  assumes P: "\<And>h m. card (unvisited m a) < n \<Longrightarrow> add_signal n a h m \<noteq> None"
  shows "card (unvisited m a) \<le> n \<Longrightarrow>
         \<forall>t \<in> set ls. (rid, py_int (frequency_recipiency t)) \<in> set (bucket_list m) \<Longrightarrow>
         add_signal_loop n a rid ls h m \<noteq> None"
proof (induction ls arbitrary: h m)
  case Nil
  then show ?case by simp
next
  case (Cons l rest)
  let ?key = "py_int (frequency_recipiency l)"
  have rest: "\<forall>t \<in> set rest. (rid, py_int (frequency_recipiency t)) \<in> set (bucket_list m)"
    and b: "(rid, ?key) \<in> set (bucket_list m)"
    using Cons.prems(2) by simp_all
  have same: "add_signal_loop n a rid rest h m \<noteq> None"
    using Cons.prems(1) rest by (rule Cons.IH)
  show ?case
  proof (cases "matches m (h ! a) l \<and> \<not> signal_in h a (getting_information m rid ?key)")
    case False
    then show ?thesis using same
      by (auto simp: matches_def split: option.splits)
  next
    case True
    then have nin: "a \<notin> set (getting_information m rid ?key)"
      by (auto dest: not_signal_in_notin)
    have after: "add_signal_loop n a rid rest h1 m1 \<noteq> None"
      if g: "grows (record_signal rid ?key a m) m1" for h1 m1
    proof (rule Cons.IH)
      have "card (unvisited m1 a) < card (unvisited m a)"
        using b nin g by (rule card_unvisited_record)
      then show "card (unvisited m1 a) \<le> n" using Cons.prems(1) by simp
      have "grows m m1" using grows_record g by (rule grows_trans)
      then show "\<forall>t \<in> set rest. (rid, py_int (frequency_recipiency t)) \<in> set (bucket_list m1)"
        using rest by (simp add: bucket_list_grows)
    qed
    have lt: "card (unvisited (relay_medium l rid a m) a) < n"
      using card_unvisited_record [OF b nin grows_record_relay_medium] Cons.prems(1) by simp
    show ?thesis
    proof (cases "id_destination_relay l")
      case None
      have "grows (record_signal rid ?key a m) (deposit_signal rid ?key a (record_signal rid ?key a m))"
        by simp
      from after [OF this] show ?thesis using True None
        by (auto simp: matches_def split: option.splits)
    next
      case (Some dest)
      show ?thesis
      proof (cases "frequency_transmission_relay l")
        case None
        then show ?thesis using True Some by (auto simp: matches_def split: option.splits)
      next
        case ft: (Some ft)
        let ?call = "add_signal n a (retarget dest ft (id_antenna_destination_relay l) a h)
                       (relay_medium l rid a m)"
        have call: "?call \<noteq> None" using lt by (rule P)
        then obtain r where r: "?call = Some r" by auto
        show ?thesis
        proof (cases r)
          case (Inl e)
          then show ?thesis using True Some ft r
            by (auto simp: matches_def relay_medium_def split: option.splits if_splits)
        next
          case (Inr p)
          obtain h1 m1 where p: "p = (h1, m1)" by (cases p)
          have "grows (relay_medium l rid a m) m1"
            using r Inr p by (auto intro: add_signal_grows)
          with grows_record_relay_medium
          have "grows (record_signal rid ?key a m) m1" by (rule grows_trans)
          from after [OF this, of h1] show ?thesis using True Some ft r Inr p
            by (auto simp: matches_def relay_medium_def split: option.splits if_splits)
        qed
      qed
    qed
  qed
qed

lemma bucket_list_tasks:
  "map_of (consumers m) rid = Some c \<Longrightarrow> t \<in> set (listen_ether_tasks c) \<Longrightarrow>
   (rid, py_int (frequency_recipiency t)) \<in> set (bucket_list m)"
  by (force simp: bucket_list_def dest: map_of_SomeD)

lemma add_signal_progress:
  "card (unvisited m a) < n \<Longrightarrow> add_signal n a h m \<noteq> None"
proof (induction n arbitrary: h m)
  case 0
  then show ?case by simp
next
  case (Suc n)
  show ?case
  proof (cases "map_of (consumers m) (id_receiver (h ! a))")
    case None
    then show ?thesis by simp
  next
    case (Some c)
    have "add_signal_loop n a (id_receiver (h ! a)) (listen_ether_tasks c) h m \<noteq> None"
    proof (rule add_signal_loop_progress_step)
      show "add_signal n a h m \<noteq> None" if "card (unvisited m a) < n" for h m
        using that by (rule Suc.IH)
      show "card (unvisited m a) \<le> n" using Suc.prems by simp
      show "\<forall>t \<in> set (listen_ether_tasks c).
              (id_receiver (h ! a), py_int (frequency_recipiency t)) \<in> set (bucket_list m)"
        using Some by (auto intro: bucket_list_tasks)
    qed
    then show ?thesis using Some by simp
  qed
qed

lemma card_unvisited_le: "card (unvisited m a) \<le> length (bucket_list m)"
proof -
  have "unvisited m a \<subseteq> set (bucket_list m)" by (auto simp: unvisited_def)
  then have "card (unvisited m a) \<le> card (set (bucket_list m))" by (simp add: card_mono)
  also have "\<dots> \<le> length (bucket_list m)" by (rule card_length)
  finally show ?thesis .
qed

lemma add_signal_loop_fuel_step:
  assumes S: "\<And>h m r. add_signal n a h m = Some r \<Longrightarrow> add_signal (Suc n) a h m = Some r"
  shows "add_signal_loop n a rid ls h m = Some r \<Longrightarrow> add_signal_loop (Suc n) a rid ls h m = Some r"
proof (induction ls arbitrary: h m)
  case Nil
  then show ?case by simp
next
  case (Cons l rest)
  show ?case
  proof (cases "matches m (h ! a) l \<and> \<not> signal_in h a (getting_information m rid (py_int (frequency_recipiency l)))
                \<and> id_destination_relay l \<noteq> None \<and> frequency_transmission_relay l \<noteq> None")
    case False
    then show ?thesis using Cons.prems Cons.IH
      by (auto simp: matches_def split: option.splits)
  next
    case True
    then obtain dest ft where d: "id_destination_relay l = Some dest"
      and f: "frequency_transmission_relay l = Some ft" by auto
    let ?call = "\<lambda>n. add_signal n a (retarget dest ft (id_antenna_destination_relay l) a h)
                       (relay_medium l rid a m)"
    have unf: "add_signal_loop k a rid (l # rest) h m =
       (case ?call k of None \<Rightarrow> None | Some (Inl e) \<Rightarrow> Some (Inl e)
        | Some (Inr (h', m')) \<Rightarrow> add_signal_loop k a rid rest h' m')" for k
      using True d f by (auto simp: matches_def relay_medium_def split: option.splits if_splits)
    from Cons.prems obtain r1 where r1: "?call n = Some r1"
      by (auto simp del: add_signal_loop.simps simp add: unf split: option.splits)
    then have r1': "?call (Suc n) = Some r1" by (rule S)
    show ?thesis using Cons.prems Cons.IH r1 r1'
      by (auto simp del: add_signal_loop.simps add_signal.simps simp add: unf split: sum.splits)
  qed
qed

lemma add_signal_fuel_Suc:
  "add_signal n a h m = Some r \<Longrightarrow> add_signal (Suc n) a h m = Some r"
proof (induction n arbitrary: h m r)
  case 0
  then show ?case by simp
next
  case (Suc n)
  from Suc.prems show ?case
    using add_signal_loop_fuel_step [OF Suc.IH]
    by (auto split: option.splits)
qed

lemma add_signal_fuel: "add_signal n a h m = Some r \<Longrightarrow> add_signal (n + k) a h m = Some r"
  by (induction k) (auto dest: add_signal_fuel_Suc)


lemmas scenario_defs = pingpong_def consumer_with_def relay_task_def listen_task_def signal_to_def
  RadioTransmissionMediumConsumer_init_def bucket_list_def
  can_consumer_receive_signal_by_frequency_def can_consumer_receive_signal_by_antenna_def
  signal_in_def getting_information_def record_signal_def deposit_signal_def update_consumer_def
  retarget_def relay_medium_def dict_get_def dict_append_def py_int_def


subsection \<open>Termination of the relay recursion\<close>

text \<open>
  Claim C1. Every call of \<open>add_signal\<close> terminates, for every medium, store and signal: a
  recursion depth of one more than the number of active tasks of all consumers is enough,
  and any larger bound gives the same result. The recursion ends at a relay cycle because
  a task whose frequency bucket already holds the signal in the recipient's dedup cache
  is skipped: the loop goes on to the next task without relaying.
\<close>

theorem add_signal_terminates:
  "(\<exists>r. \<forall>k. add_signal (Suc (length (bucket_list m)) + k) a h m = Some r) \<and>
   (task_id_antenna_receiver l \<noteq> None \<and>
    signal_in h a (getting_information m rid (py_int (frequency_recipiency l))) \<longrightarrow>
    add_signal_loop n a rid (l # rest) h m = add_signal_loop n a rid rest h m)"
proof
  have "card (unvisited m a) < Suc (length (bucket_list m))"
    using card_unvisited_le [of m a] by simp
  then have "add_signal (Suc (length (bucket_list m))) a h m \<noteq> None"
    by (rule add_signal_progress)
  then obtain r where "add_signal (Suc (length (bucket_list m))) a h m = Some r" by auto
  then have "\<forall>k. add_signal (Suc (length (bucket_list m)) + k) a h m = Some r"
    by (blast dest: add_signal_fuel)
  then show "\<exists>r. \<forall>k. add_signal (Suc (length (bucket_list m)) + k) a h m = Some r" ..
next
  show "task_id_antenna_receiver l \<noteq> None \<and>
    signal_in h a (getting_information m rid (py_int (frequency_recipiency l))) \<longrightarrow>
    add_signal_loop n a rid (l # rest) h m = add_signal_loop n a rid rest h m"
    by (auto split: option.splits)
qed

theorem add_signal_terminates_witness:
  "add_signal 3 0 [signal_to 1 100 0] pingpong = Some (Inr ([signal_to 1 100 0], pingpong_after)) \<and>
   add_signal 8 0 [signal_to 1 100 0] pingpong = Some (Inr ([signal_to 1 100 0], pingpong_after)) \<and>
   add_signal_loop 5 0 1 [relay_task 100 0 2 100 (Some 0) False] [signal_to 1 100 0] pingpong_after =
     Some (Inr ([signal_to 1 100 0], pingpong_after))"
proof -
  have len: "Suc (length (bucket_list pingpong)) = 3"
    by (simp add: scenario_defs)
  obtain r where r: "\<And>k. add_signal (3 + k) 0 [signal_to 1 100 0] pingpong = Some r"
    using add_signal_terminates [where m = pingpong and a = 0 and h = "[signal_to 1 100 0]"]
    unfolding len by blast
  have r0: "add_signal 3 0 [signal_to 1 100 0] pingpong = Some r" using r [of 0] by simp
  have r5: "add_signal 8 0 [signal_to 1 100 0] pingpong = Some r" using r [of 5] by simp
  have ev: "add_signal (Suc (Suc (Suc 0))) 0 [signal_to 1 100 0] pingpong =
              Some (Inr ([signal_to 1 100 0], pingpong_after))"
    by (simp add: scenario_defs pingpong_after_def)
  have r': "r = Inr ([signal_to 1 100 0], pingpong_after)"
    using r0 ev by (simp add: numeral_3_eq_3)
  have "signal_in [signal_to 1 100 0] 0
          (getting_information pingpong_after 1 (py_int (frequency_recipiency (relay_task 100 0 2 100 (Some 0) False))))"
    by (simp add: scenario_defs pingpong_after_def)
  then have "add_signal_loop 5 0 1 [relay_task 100 0 2 100 (Some 0) False] [signal_to 1 100 0] pingpong_after
       = add_signal_loop 5 0 1 [] [signal_to 1 100 0] pingpong_after"
    using add_signal_terminates [where m = pingpong_after and a = 0 and h = "[signal_to 1 100 0]"
      and l = "relay_task 100 0 2 100 (Some 0) False" and rid = 1 and n = 5 and rest = "[]"]
    by (simp add: relay_task_def)
  then show ?thesis using r0 r5 r' by simp
qed

lemma add_signal_loop_no_match:
  "task_id_antenna_receiver l = Some ant \<Longrightarrow> \<not> matches m (h ! a) l \<Longrightarrow>
   add_signal_loop n a rid (l # rest) h m = add_signal_loop n a rid rest h m"
  by (auto simp: matches_def)

lemma add_signal_loop_terminal:
  "matches m (h ! a) l \<Longrightarrow>
   \<not> signal_in h a (getting_information m rid (py_int (frequency_recipiency l))) \<Longrightarrow>
   id_destination_relay l = None \<Longrightarrow>
   add_signal_loop n a rid (l # rest) h m =
     add_signal_loop n a rid rest h
       (deposit_signal rid (py_int (frequency_recipiency l)) a
          (record_signal rid (py_int (frequency_recipiency l)) a m))"
  by (auto simp: matches_def split: option.splits)

subsection \<open>The frequency test\<close>

text \<open>
  Claim C2. \<open>can_consumer_receive_signal_by_frequency\<close> is the strict test, and a signal
  that reaches an endpoint at a frequency whose distance from a listen task is exactly the
  accuracy fails it. The signal is delivered to that task all the same when a relay task
  stands before it in the list: the relay task (listening at 115) takes the signal sent at
  110, rewrites the signal object to its output frequency 100, and after the recursion the
  loop over endpoint 1 goes on with the rewritten object, which the listen task at 100 now
  accepts; the object ends in bucket 100 of endpoint 1. Without the relay task the same
  signal is not delivered.
\<close>

theorem boundary_signal_is_delivered:
  "\<bar>frequency (signal_to 1 110 0) - frequency_recipiency (listen_task 100 0)\<bar> =
     frequency_accuracy boundary_relay \<and>
   \<not> can_consumer_receive_signal_by_frequency boundary_relay
       (frequency (signal_to 1 110 0)) (frequency_recipiency (listen_task 100 0)) \<and>
   add_signal 2 0 [signal_to 1 110 0] boundary_relay =
     Some (Inr ([signal_to 2 100 0], boundary_relay_after)) \<and>
   signal_to_receive boundary_relay_after 1 100 = [0] \<and>
   add_signal 2 0 [signal_to 1 110 0] one_listener =
     Some (Inr ([signal_to 1 110 0], one_listener))"
  by (simp add: scenario_defs boundary_relay_def boundary_relay_after_def one_listener_def
        signal_to_receive_def numeral_2_eq_2)

section \<open>Properties of the global consumer\<close>

lemma listen_ether_append_if_absent:
  "listen_ether id_ant freq c = (b, c') \<Longrightarrow>
   b = (listen_task (py_or freq (consumer_frequency (properties c))) id_ant \<notin> set (listen_ether_tasks c)) \<and>
   listen_ether_tasks c' =
     (if b then listen_ether_tasks c @ [listen_task (py_or freq (consumer_frequency (properties c))) id_ant]
      else listen_ether_tasks c)"
  by (auto simp: listen_ether_def listen_task_def split: if_splits)

subsection \<open>Registration of tasks\<close>

text \<open>
  Claim C7. \<open>listen_ether\<close> appends its task only if no equal task is in the list and
  returns whether it did (lemma \<open>listen_ether_append_if_absent\<close>). \<open>i_am_repeater\<close> has no
  such test: called a second time with the same arguments it appends a second, equal task
  and returns \<open>True\<close> again, where the second \<open>listen_ether\<close> returns \<open>False\<close>.
\<close>

theorem i_am_repeater_appends_duplicate:
  "listen_ether_tasks repeater_once = [relay_task 100 0 2 150 (Some 0) False] \<and>
   fst (i_am_repeater 2 0 (Some 0) (Some 100) (Some 150) False repeater_once) = True \<and>
   listen_ether_tasks (snd (i_am_repeater 2 0 (Some 0) (Some 100) (Some 150) False repeater_once)) =
     [relay_task 100 0 2 150 (Some 0) False, relay_task 100 0 2 150 (Some 0) False] \<and>
   fst (listen_ether 0 (Some 100) (snd (listen_ether 0 (Some 100) (consumer_with 1 100 [])))) = False"
  by (simp add: repeater_once_def i_am_repeater_def listen_ether_def consumer_with_def relay_task_def
        RadioTransmissionMediumConsumer_init_def py_or_def)

subsection \<open>A frequency argument of zero\<close>

text \<open>
  Claim C10, as stated, fails for a consumer whose own default frequency is 0: the default
  that replaces the falsy argument is then 0 itself, and the signal is queued, the task
  registered and the inbox read at frequency 0.
\<close>

theorem zero_frequency_counterexample:
  "fst (send_signal 2 block (Some 0) (Some 0) [] (consumer_with 1 0 [])) = True \<and>
   frequency (fst (snd (send_signal 2 block (Some 0) (Some 0) [] (consumer_with 1 0 []))) ! 0) = 0 \<and>
   fst (listen_ether 0 (Some 0) (consumer_with 1 0 [])) = True \<and>
   map frequency_recipiency
     (listen_ether_tasks (snd (listen_ether 0 (Some 0) (consumer_with 1 0 [])))) = [0] \<and>
   receive_signal (Some 0)
     ((consumer_with 1 0 [])\<lparr>dict_frequency_signal_to_receive := [0 \<mapsto> [7]]\<rparr>) = [7]"
  by (simp add: send_signal_def listen_ether_def receive_signal_def consumer_with_def alloc_def
        RadioTransmissionMediumConsumer_init_def py_or_def py_int_def dict_get_def block_def)

lemma py_or_zero: "py_or (Some 0) d = py_or None d"
  by (simp add: py_or_def)

lemma py_or_nonzero: "d \<noteq> 0 \<Longrightarrow> py_or freq d \<noteq> 0"
  by (simp add: py_or_def split: option.splits)

lemma send_signal_frequency:
  "send_signal r mem freq ant h c = (True, h', c') \<Longrightarrow>
   h' = h @ [\<lparr>id_transmitter = id_consumer (properties c), id_receiver = r, memory = mem,
              frequency = py_or freq (consumer_frequency (properties c)),
              id_antenna_receiver = ant\<rparr>] \<and>
   dict_id_receiver_signals_to_send c' =
     odict_append (dict_id_receiver_signals_to_send c) r (length h)"
  by (auto simp: send_signal_def alloc_def split: if_splits)

text \<open>
  Claim C10, amended. In \<open>send_signal\<close>, \<open>receive_signal\<close> and \<open>listen_ether\<close> a frequency
  argument 0 behaves exactly as an omitted one, the consumer's default frequency being used
  for both; and when that default is not 0, the frequency of a queued signal, of a
  registered task and of the bucket read is never 0.
\<close>

theorem zero_frequency_is_default:
  "send_signal r mem (Some 0) ant h c = send_signal r mem None ant h c \<and>
   receive_signal (Some 0) c = receive_signal None c \<and>
   listen_ether id_ant (Some 0) c = listen_ether id_ant None c \<and>
   (consumer_frequency (properties c) \<noteq> 0 \<longrightarrow>
      (fst (send_signal r mem freq ant h c) \<longrightarrow>
         frequency (last (fst (snd (send_signal r mem freq ant h c)))) \<noteq> 0) \<and>
      (fst (listen_ether id_ant freq c) \<longrightarrow>
         frequency_recipiency (last (listen_ether_tasks (snd (listen_ether id_ant freq c)))) \<noteq> 0) \<and>
      receive_signal freq c =
        dict_get (dict_frequency_signal_to_receive c)
          (py_int (py_or freq (consumer_frequency (properties c)))) \<and>
      py_or freq (consumer_frequency (properties c)) \<noteq> 0)"
proof (intro conjI impI)
  show "send_signal r mem (Some 0) ant h c = send_signal r mem None ant h c"
    by (simp add: send_signal_def py_or_zero)
  show "receive_signal (Some 0) c = receive_signal None c"
    by (simp add: receive_signal_def py_or_zero)
  show "listen_ether id_ant (Some 0) c = listen_ether id_ant None c"
    by (simp add: listen_ether_def py_or_zero)
next
  assume d: "consumer_frequency (properties c) \<noteq> 0"
  then show nz: "py_or freq (consumer_frequency (properties c)) \<noteq> 0"
    by (rule py_or_nonzero)
  show "receive_signal freq c =
        dict_get (dict_frequency_signal_to_receive c)
          (py_int (py_or freq (consumer_frequency (properties c))))"
    by (simp add: receive_signal_def)
  {
    assume "fst (send_signal r mem freq ant h c)"
    then show "frequency (last (fst (snd (send_signal r mem freq ant h c)))) \<noteq> 0"
      using nz by (auto simp: send_signal_def alloc_def split: if_splits)
  }
  {
    assume "fst (listen_ether id_ant freq c)"
    then show "frequency_recipiency (last (listen_ether_tasks (snd (listen_ether id_ant freq c)))) \<noteq> 0"
      using nz by (auto simp: listen_ether_def split: if_splits)
  }
qed

theorem zero_frequency_is_default_witness:
  "send_signal 2 block (Some 0) (Some 0) [] (consumer_with 1 100 []) =
     send_signal 2 block None (Some 0) [] (consumer_with 1 100 []) \<and>
   fst (send_signal 2 block (Some 0) (Some 0) [] (consumer_with 1 100 [])) = True \<and>
   frequency (last (fst (snd (send_signal 2 block (Some 0) (Some 0) [] (consumer_with 1 100 []))))) = 100 \<and>
   fst (listen_ether 0 (Some 0) (consumer_with 1 100 [])) = True \<and>
   frequency_recipiency
     (last (listen_ether_tasks (snd (listen_ether 0 (Some 0) (consumer_with 1 100 []))))) = 100 \<and>
   receive_signal (Some 0)
     ((consumer_with 1 100 [])\<lparr>dict_frequency_signal_to_receive := [0 \<mapsto> [7], 100 \<mapsto> [8]]\<rparr>) = [8]"
proof -
  have d: "consumer_frequency (properties (consumer_with 1 100 [])) \<noteq> 0"
    by (simp add: consumer_with_def RadioTransmissionMediumConsumer_init_def)
  have ev: "fst (send_signal 2 block (Some 0) (Some 0) [] (consumer_with 1 100 [])) = True"
      "frequency (last (fst (snd (send_signal 2 block (Some 0) (Some 0) [] (consumer_with 1 100 []))))) = 100"
      "fst (listen_ether 0 (Some 0) (consumer_with 1 100 [])) = True"
      "frequency_recipiency
        (last (listen_ether_tasks (snd (listen_ether 0 (Some 0) (consumer_with 1 100 []))))) = 100"
      "receive_signal (Some 0)
        ((consumer_with 1 100 [])\<lparr>dict_frequency_signal_to_receive := [0 \<mapsto> [7], 100 \<mapsto> [8]]\<rparr>) = [8]"
    by (simp_all add: send_signal_def listen_ether_def receive_signal_def consumer_with_def alloc_def
        RadioTransmissionMediumConsumer_init_def py_or_def py_int_def dict_get_def block_def)
  from zero_frequency_is_default [where c = "consumer_with 1 100 []" and r = 2 and mem = block
      and ant = "Some 0" and h = "[]" and id_ant = 0 and freq = "Some 0"] d ev
  show ?thesis by simp
qed

section \<open>Delivery to the listen tasks of an endpoint\<close>

subsection \<open>The local copy of a relayed signal\<close>

text \<open>
  Claim C6. With \<open>save_relayed_signals_locally_relay\<close> the relaying endpoint's inbox gets
  the signal object itself, not a copy, before the object is rewritten for the relay. After
  \<open>add_signal\<close> the entry in the inbox bucket 100 of endpoint 2 is the very object that
  sits in the inbox of endpoint 3, and it shows the receiver id 3, the frequency 150 and
  the antenna id 0 of the relay destination instead of the values 2, 100 and 1 it was
  received with.
\<close>

theorem local_copy_is_rewritten:
  "add_signal 2 0 [signal_to 2 100 1] relay_keep =
     Some (Inr ([signal_to 3 150 0], relay_keep_after)) \<and>
   signal_to_receive relay_keep_after 2 100 = [0] \<and>
   signal_to_receive relay_keep_after 3 150 = [0] \<and>
   id_receiver ([signal_to 3 150 0] ! 0) = 3 \<and>
   frequency ([signal_to 3 150 0] ! 0) = 150 \<and>
   id_antenna_receiver ([signal_to 3 150 0] ! 0) = Some 0 \<and>
   signal_to 3 150 0 \<noteq> signal_to 2 100 1"
  by (simp add: scenario_defs relay_keep_def relay_keep_after_def signal_to_receive_def
        numeral_2_eq_2)

subsection \<open>Fan-out\<close>

text \<open>
  Claim C5, as stated, fails: both tasks of endpoint 1 match the signal in frequency and
  antenna, yet the signal is delivered for the first one only. The relay task comes
  second, finds the signal in the dedup cache of the bucket it shares with the listen
  task, and is skipped: nothing reaches endpoint 2.
\<close>

theorem fan_out_counterexample:
  "matches same_bucket (signal_to 1 100 0) (listen_task 100 0) \<and>
   matches same_bucket (signal_to 1 100 0) (relay_task 100 0 2 150 (Some 0) False) \<and>
   add_signal 3 0 [signal_to 1 100 0] same_bucket =
     Some (Inr ([signal_to 1 100 0], same_bucket_after)) \<and>
   signal_to_receive same_bucket_after 1 100 = [0] \<and>
   signal_to_receive same_bucket_after 2 150 = []"
  by (simp add: scenario_defs same_bucket_def same_bucket_after_def signal_to_receive_def
        matches_def numeral_3_eq_3)

lemma signal_to_receive_record [simp]:
  "signal_to_receive (record_signal rid key a m) r k = signal_to_receive m r k"
  by (auto simp: signal_to_receive_def record_signal_def map_of_update_consumer
           split: option.splits)

lemma signal_to_receive_deposit:
  "signal_to_receive (deposit_signal rid key a m) r k =
     (if r = rid \<and> k = key \<and> map_of (consumers m) rid \<noteq> None
      then signal_to_receive m rid key @ [a] else signal_to_receive m r k)"
  by (auto simp: signal_to_receive_def deposit_signal_def map_of_update_consumer
                 dict_get_def dict_append_def split: option.splits)

lemma matches_deposit_record [simp]:
  "matches (deposit_signal rid key a (record_signal rid' key' a' m)) s t = matches m s t"
  by (simp add: matches_def can_consumer_receive_signal_by_frequency_def split: option.splits)

lemma registered_update_consumer:
  "map_of (consumers (update_consumer rid f m)) r \<noteq> None \<longleftrightarrow> map_of (consumers m) r \<noteq> None"
  by (simp add: map_of_update_consumer)

lemma registered_record_signal [simp]:
  "map_of (consumers (record_signal rid key a m)) r = None \<longleftrightarrow> map_of (consumers m) r = None"
  by (simp add: record_signal_def map_of_update_consumer)

lemma registered_deposit_signal [simp]:
  "map_of (consumers (deposit_signal rid key a m)) r = None \<longleftrightarrow> map_of (consumers m) r = None"
  by (simp add: deposit_signal_def map_of_update_consumer)

lemma signal_in_append_self [simp]: "signal_in h a (l @ [a])"
  by (simp add: signal_in_def)

lemma fan_out_terminal:
  assumes reg: "map_of (consumers m) rid \<noteq> None"
    and tm: "\<forall>t \<in> set ts. task_id_antenna_receiver t \<noteq> None \<and> id_destination_relay t = None"
  shows "\<exists>m'. add_signal_loop n a rid ts h m = Some (Inr (h, m')) \<and>
           (\<forall>k. signal_to_receive m' rid k =
                  signal_to_receive m rid k @ (if fresh_hit m h a rid ts k then [a] else [])) \<and>
           (\<forall>k. getting_information m' rid k =
                  getting_information m rid k @ (if fresh_hit m h a rid ts k then [a] else []))"
  using reg tm
proof (induction ts arbitrary: m)
  case Nil
  then show ?case by (simp add: fresh_hit_def)
next
  case (Cons l rest)
  let ?key = "py_int (frequency_recipiency l)"
  from Cons.prems obtain ant where ant: "task_id_antenna_receiver l = Some ant"
    and noreal: "id_destination_relay l = None"
    and rest: "\<forall>t \<in> set rest. task_id_antenna_receiver t \<noteq> None \<and> id_destination_relay t = None"
    by auto
  show ?case
  proof (cases "matches m (h ! a) l \<and> \<not> signal_in h a (getting_information m rid ?key)")
    case True
    let ?m1 = "deposit_signal rid ?key a (record_signal rid ?key a m)"
    have step: "add_signal_loop n a rid (l # rest) h m = add_signal_loop n a rid rest h ?m1"
      using True noreal by (simp add: add_signal_loop_terminal del: add_signal_loop.simps)
    have reg1: "map_of (consumers ?m1) rid \<noteq> None"
      using Cons.prems(1)
      by simp
    from Cons.IH [OF reg1 rest] obtain m' where
      run: "add_signal_loop n a rid rest h ?m1 = Some (Inr (h, m'))"
      and inbox: "\<And>k. signal_to_receive m' rid k =
                  signal_to_receive ?m1 rid k @ (if fresh_hit ?m1 h a rid rest k then [a] else [])"
      and cache: "\<And>k. getting_information m' rid k =
                  getting_information ?m1 rid k @ (if fresh_hit ?m1 h a rid rest k then [a] else [])"
      by blast
    have hit: "fresh_hit m h a rid (l # rest) k =
                 (if k = ?key then True else fresh_hit ?m1 h a rid rest k)"
              "fresh_hit ?m1 h a rid rest ?key = False" for k
      using True Cons.prems(1)
      by (auto simp: fresh_hit_def getting_information_record)
    have "signal_to_receive m' rid k =
            signal_to_receive m rid k @ (if fresh_hit m h a rid (l # rest) k then [a] else [])" for k
      using Cons.prems(1) by (simp add: inbox hit signal_to_receive_deposit)
    moreover have "getting_information m' rid k =
            getting_information m rid k @ (if fresh_hit m h a rid (l # rest) k then [a] else [])" for k
      using Cons.prems(1) by (simp add: cache hit getting_information_record)
    ultimately show ?thesis using step run by simp
  next
    case False
    have step: "add_signal_loop n a rid (l # rest) h m = add_signal_loop n a rid rest h m"
      using False ant by (auto simp: matches_def)
    have hit: "fresh_hit m h a rid (l # rest) k = fresh_hit m h a rid rest k" for k
      using False by (auto simp: fresh_hit_def)
    from Cons.IH [OF Cons.prems(1) rest] show ?thesis
      by (simp add: step hit del: add_signal_loop.simps)
  qed
qed


lemma py_int_numeral: "py_int (numeral w) = numeral w"
  by (simp add: py_int_def)

lemma py_int_half: "py_int (201 / 2) = 100"
  by code_simp

text \<open>
  Claim C5, amended. The dedup check is per (endpoint, frequency bucket), in the order of
  the task list. On an endpoint whose active tasks are terminal listen tasks, a signal is
  deposited exactly once in the inbox bucket of every matching task whose bucket did not
  already hold an equal signal, and in no other bucket; matching tasks that share a bucket
  share that one deposit. Any task, listen or relay, whose bucket already holds the signal
  is skipped.
\<close>

theorem fan_out_per_bucket:
  "(map_of (consumers m) rid \<noteq> None \<and>
    (\<forall>t \<in> set ts. task_id_antenna_receiver t \<noteq> None \<and> id_destination_relay t = None) \<longrightarrow>
    (\<exists>m'. add_signal_loop n a rid ts h m = Some (Inr (h, m')) \<and>
       (\<forall>k. signal_to_receive m' rid k =
              signal_to_receive m rid k @ (if fresh_hit m h a rid ts k then [a] else [])) \<and>
       (\<forall>k. getting_information m' rid k =
              getting_information m rid k @ (if fresh_hit m h a rid ts k then [a] else [])))) \<and>
   (task_id_antenna_receiver l \<noteq> None \<and>
    signal_in h a (getting_information m rid (py_int (frequency_recipiency l))) \<longrightarrow>
    add_signal_loop n a rid (l # rest) h m = add_signal_loop n a rid rest h m)"
proof (intro conjI impI)
  assume "map_of (consumers m) rid \<noteq> None \<and>
    (\<forall>t \<in> set ts. task_id_antenna_receiver t \<noteq> None \<and> id_destination_relay t = None)"
  then show "\<exists>m'. add_signal_loop n a rid ts h m = Some (Inr (h, m')) \<and>
       (\<forall>k. signal_to_receive m' rid k =
              signal_to_receive m rid k @ (if fresh_hit m h a rid ts k then [a] else [])) \<and>
       (\<forall>k. getting_information m' rid k =
              getting_information m rid k @ (if fresh_hit m h a rid ts k then [a] else []))"
    by (blast intro: fan_out_terminal)
next
  assume "task_id_antenna_receiver l \<noteq> None \<and>
    signal_in h a (getting_information m rid (py_int (frequency_recipiency l)))"
  then show "add_signal_loop n a rid (l # rest) h m = add_signal_loop n a rid rest h m"
    by (auto split: option.splits)
qed

theorem fan_out_per_bucket_witness:
  "add_signal_loop 0 0 1 [listen_task 100 0, listen_task 105 0, listen_task (201 / 2) 0]
     [signal_to 1 102 0] two_buckets = Some (Inr ([signal_to 1 102 0], two_buckets_after)) \<and>
   signal_to_receive two_buckets_after 1 100 = [0] \<and>
   signal_to_receive two_buckets_after 1 105 = [0] \<and>
   matches two_buckets (signal_to 1 102 0) (listen_task (201 / 2) 0) \<and>
   py_int (frequency_recipiency (listen_task (201 / 2) 0)) = 100"
proof -
  let ?ts = "[listen_task 100 0, listen_task 105 0, listen_task (201 / 2) 0]"
  let ?h = "[signal_to 1 102 0]"
  have pre: "map_of (consumers two_buckets) 1 \<noteq> None \<and>
    (\<forall>t \<in> set ?ts. task_id_antenna_receiver t \<noteq> None \<and> id_destination_relay t = None)"
    by (simp add: two_buckets_def listen_task_def)
  from fan_out_per_bucket [where m = two_buckets and rid = 1 and ts = ?ts and n = 0 and a = 0
      and h = ?h] pre
  obtain m' where run: "add_signal_loop 0 0 1 ?ts ?h two_buckets = Some (Inr (?h, m'))"
    and inbox: "\<And>k. signal_to_receive m' 1 k =
              signal_to_receive two_buckets 1 k @ (if fresh_hit two_buckets ?h 0 1 ?ts k then [0] else [])"
    by blast
  have hit: "fresh_hit two_buckets ?h 0 1 ?ts 100" "fresh_hit two_buckets ?h 0 1 ?ts 105"
    by (simp_all add: fresh_hit_def matches_def scenario_defs two_buckets_def py_int_numeral
          py_int_half del: py_int_def)
  have empty: "signal_to_receive two_buckets 1 k = []" for k
    by (simp add: signal_to_receive_def two_buckets_def consumer_with_def
          RadioTransmissionMediumConsumer_init_def dict_get_def)
  have ev: "add_signal_loop 0 0 1 ?ts ?h two_buckets = Some (Inr (?h, two_buckets_after))"
    by (simp add: scenario_defs two_buckets_def two_buckets_after_def py_int_numeral py_int_half
          del: py_int_def)
  with run have m': "m' = two_buckets_after" by simp
  have "matches two_buckets (signal_to 1 102 0) (listen_task (201 / 2) 0)"
    "py_int (frequency_recipiency (listen_task (201 / 2) 0)) = 100"
    by (simp_all add: matches_def scenario_defs two_buckets_def py_int_half del: py_int_def)
  then show ?thesis using ev inbox [of 100] inbox [of 105] hit empty by (simp add: m')
qed

section \<open>Properties of the local system\<close>

lemma map_of_update_antenna:
  "map_of (antennas (update_antenna k f s)) k' =
     (if k' = k then map_option f (map_of (antennas s) k) else map_of (antennas s) k')"
proof -
  have "map_of (map (\<lambda>(k', d). if k' = k then (k', f d) else (k', d)) xs) k' =
     (if k' = k then map_option f (map_of xs k) else map_of xs k')" for xs
    by (induction xs) auto
  then show ?thesis by (simp add: update_antenna_def)
qed

lemma update_antenna_fields [simp]:
  "list_transmission_channel (update_antenna k f s) = list_transmission_channel s"
  "dict_reception_channel (update_antenna k f s) = dict_reception_channel s"
  "dict_reception_channel_from_prev_step (update_antenna k f s) =
     dict_reception_channel_from_prev_step s"
  "list_relay_channel (update_antenna k f s) = list_relay_channel s"
  "dict_signals_to_send (update_antenna k f s) = dict_signals_to_send s"
  "dict_id_device_memory_blocks_to_receive (update_antenna k f s) =
     dict_id_device_memory_blocks_to_receive s"
  "duration (update_antenna k f s) = duration s"
  by (simp_all add: update_antenna_def)

lemma set_mode_fields [simp]:
  "list_transmission_channel (set_mode k md s) = list_transmission_channel s"
  "dict_reception_channel (set_mode k md s) = dict_reception_channel s"
  "dict_reception_channel_from_prev_step (set_mode k md s) =
     dict_reception_channel_from_prev_step s"
  "list_relay_channel (set_mode k md s) = list_relay_channel s"
  "dict_signals_to_send (set_mode k md s) = dict_signals_to_send s"
  "dict_id_device_memory_blocks_to_receive (set_mode k md s) =
     dict_id_device_memory_blocks_to_receive s"
  "duration (set_mode k md s) = duration s"
  by (simp_all add: set_mode_def)

lemma map_of_set_mode:
  "map_of (antennas (set_mode k md s)) k' =
     (if k' = k then map_option (\<lambda>d. d\<lparr>communication_mode := md\<rparr>) (map_of (antennas s) k)
      else map_of (antennas s) k')"
  by (simp add: set_mode_def map_of_update_antenna)

lemma tune_Inr:
  "tune freq d = Inr d' \<Longrightarrow>
   communication_mode d' = communication_mode d \<and> id_antenna d' = id_antenna d \<and>
   device_properties d' = device_properties d \<and>
   device_frequency d' = (if truthy freq then the freq else device_frequency d)"
  by (auto simp: tune_def set_frequency_def truthy_def split: option.splits if_splits)

lemma tune_antenna_Inr:
  assumes "tune_antenna freq k s = Inr s'"
  obtains d d' where "map_of (antennas s) k = Some d" "tune freq d = Inr d'"
    "s' = update_antenna k (\<lambda>_. d') s"
  using assms by (auto simp: tune_antenna_def split: option.splits sum.splits)

lemma map_of_odict_append:
  "map_of (odict_append d k v) k' =
     (if k' = k then Some ((case map_of d k of None \<Rightarrow> [] | Some l \<Rightarrow> l) @ [v]) else map_of d k')"
  by (induction d k v rule: odict_append.induct) auto

lemma transmitter_success:
  assumes "assign_device_as_transmitter mem ia ir f iar s = (Inr b, s')"
  shows "b = False \<and> ia \<in> set (list_transmission_channel s') \<and>
         (\<exists>d sigs. map_of (antennas s') ia = Some d \<and> communication_mode d = TRANSMISSION \<and>
            map_of (dict_signals_to_send s') (id_antenna d) = Some sigs \<and> sigs \<noteq> [] \<and>
            memory (last sigs) = mem \<and> id_receiver (last sigs) = ir \<and>
            frequency (last sigs) = device_frequency d)"
proof -
  from assms obtain antenna s1 antenna' where
    a: "map_of (antennas s) ia = Some antenna"
    and t: "tune_antenna f ia (set_mode ia TRANSMISSION s) = Inr s1"
    and a': "map_of (antennas s1) ia = Some antenna'"
    and b: "b = False"
    and s': "s' = s1\<lparr>dict_signals_to_send :=
                       odict_append (dict_signals_to_send s1) (id_antenna antenna')
                         \<lparr>id_transmitter = - 1, id_receiver = ir, memory = mem,
                          frequency = device_frequency antenna', id_antenna_receiver = iar\<rparr>,
                     list_transmission_channel :=
                       append_if_absent ia (list_transmission_channel s1)\<rparr>"
    by (auto simp: assign_device_as_transmitter_def split: option.splits if_splits sum.splits)
  from t obtain d d' where d: "map_of (antennas (set_mode ia TRANSMISSION s)) ia = Some d"
    and td: "tune f d = Inr d'" and s1: "s1 = update_antenna ia (\<lambda>_. d') (set_mode ia TRANSMISSION s)"
    by (rule tune_antenna_Inr)
  have "communication_mode d = TRANSMISSION" using d a by (auto simp: map_of_set_mode)
  moreover have "antenna' = d'" using a' d by (simp add: s1 map_of_update_antenna)
  ultimately have md: "communication_mode antenna' = TRANSMISSION" using tune_Inr [OF td] by simp
  show ?thesis
    using b a' md by (auto simp: s' map_of_odict_append append_if_absent_def)
qed

subsection \<open>Return values of the assignments\<close>

text \<open>
  Claim C9. Whenever \<open>assign_device_as_transmitter\<close> returns (does not raise), the value
  it returns is \<open>False\<close>, although the assignment took place: the device is in the
  transmission list, its mode is \<open>TRANSMISSION\<close>, and the signal is the last one staged for
  it, at the device's frequency. \<open>assign_device_as_receiver\<close> and
  \<open>assign_device_as_repeater\<close> return \<open>True\<close> whenever they return.
\<close>

theorem transmitter_returns_false:
  "(assign_device_as_transmitter mem ia ir f iar s = (Inr b, s') \<longrightarrow>
      b = False \<and> ia \<in> set (list_transmission_channel s') \<and>
      (\<exists>d sigs. map_of (antennas s') ia = Some d \<and> communication_mode d = TRANSMISSION \<and>
         map_of (dict_signals_to_send s') (id_antenna d) = Some sigs \<and> sigs \<noteq> [] \<and>
         memory (last sigs) = mem \<and> id_receiver (last sigs) = ir \<and>
         frequency (last sigs) = device_frequency d)) \<and>
   (assign_device_as_receiver ia f s = (Inr b, s') \<longrightarrow> b = True) \<and>
   (assign_device_as_repeater id_in id_out id_dest id_ant_dest f_in f_out save s = (Inr b, s') \<longrightarrow>
      b = True)"
proof (intro conjI impI)
  assume "assign_device_as_transmitter mem ia ir f iar s = (Inr b, s')"
  then have *: "b = False \<and> ia \<in> set (list_transmission_channel s') \<and>
         (\<exists>d sigs. map_of (antennas s') ia = Some d \<and> communication_mode d = TRANSMISSION \<and>
            map_of (dict_signals_to_send s') (id_antenna d) = Some sigs \<and> sigs \<noteq> [] \<and>
            memory (last sigs) = mem \<and> id_receiver (last sigs) = ir \<and>
            frequency (last sigs) = device_frequency d)"
    by (rule transmitter_success)
  from * show "b = False" by blast
  from * show "ia \<in> set (list_transmission_channel s')" by blast
  from * show "\<exists>d sigs. map_of (antennas s') ia = Some d \<and> communication_mode d = TRANSMISSION \<and>
            map_of (dict_signals_to_send s') (id_antenna d) = Some sigs \<and> sigs \<noteq> [] \<and>
            memory (last sigs) = mem \<and> id_receiver (last sigs) = ir \<and>
            frequency (last sigs) = device_frequency d" by blast
next
  assume "assign_device_as_receiver ia f s = (Inr b, s')"
  then show "b = True"
    by (auto simp: assign_device_as_receiver_def split: option.splits if_splits sum.splits)
next
  assume "assign_device_as_repeater id_in id_out id_dest id_ant_dest f_in f_out save s = (Inr b, s')"
  then show "b = True"
    by (auto simp: assign_device_as_repeater_def split: option.splits if_splits sum.splits)
qed


lemmas local_defs = two_devices_def antenna_properties_def add_device_def
  RadiotransmissionSystem_init_def TransmitReceiveDevice_init_def
  assign_device_as_transmitter_def assign_device_as_receiver_def assign_device_as_repeater_def
  tune_antenna_def tune_def set_frequency_def set_mode_def update_antenna_def block_def
  append_if_absent_def insert_if_absent_def

theorem transmitter_returns_false_witness:
  "fst (assign_device_as_transmitter block 0 2 (Some 100) (Some 1) two_devices) = Inr False \<and>
   fst (assign_device_as_receiver 0 (Some 100) two_devices) = Inr True \<and>
   fst (assign_device_as_repeater 0 1 3 (Some 1) (Some 100) (Some 150) False two_devices) = Inr True"
proof -
  have "\<exists>b s'. assign_device_as_transmitter block 0 2 (Some 100) (Some 1) two_devices = (Inr b, s')"
    by (auto simp: local_defs)
  then obtain b1 s1 where 1: "assign_device_as_transmitter block 0 2 (Some 100) (Some 1) two_devices = (Inr b1, s1)"
    by blast
  have "\<exists>b s'. assign_device_as_receiver 0 (Some 100) two_devices = (Inr b, s')"
    by (auto simp: local_defs)
  then obtain b2 s2 where 2: "assign_device_as_receiver 0 (Some 100) two_devices = (Inr b2, s2)"
    by blast
  have "\<exists>b s'. assign_device_as_repeater 0 1 3 (Some 1) (Some 100) (Some 150) False two_devices = (Inr b, s')"
    by (auto simp: local_defs)
  then obtain b3 s3 where 3: "assign_device_as_repeater 0 1 3 (Some 1) (Some 100) (Some 150) False two_devices = (Inr b3, s3)"
    by blast
  have "b1 = False"
    using transmitter_returns_false [where mem = block and ia = 0 and ir = 2 and f = "Some 100"
        and iar = "Some 1" and s = two_devices and b = b1 and s' = s1] 1 by blast
  moreover have "b2 = True"
    using transmitter_returns_false [where ia = 0 and f = "Some 100" and s = two_devices
        and b = b2 and s' = s2] 2 by blast
  moreover have "b3 = True"
    using transmitter_returns_false [where id_in = 0 and id_out = 1 and id_dest = 3
        and id_ant_dest = "Some 1" and f_in = "Some 100" and f_out = "Some 150" and save = False
        and s = two_devices and b = b3 and s' = s3] 3 by blast
  ultimately show ?thesis using 1 2 3 by simp
qed

lemma odict_get_append:
  "odict_get (odict_append d k v) k' = (if k' = k then odict_get d k @ [v] else odict_get d k')"
  by (simp add: odict_get_def map_of_odict_append)

lemma inbox_divide_Cons:
  "inbox_divide dv h g dur ((k, d) # rest) \<longleftrightarrow>
     (\<forall>a \<in> set (receive_signal (Some (device_frequency d)) g).
        id_antenna_receiver (h ! a) = Some k \<longrightarrow>
        (\<exists>q. dv (block_size (memory (h ! a))) dur = Inr q)) \<and>
     inbox_divide dv h g dur rest"
  by (simp add: inbox_divide_def)

lemma receive_all_result:
  assumes "duration s = Some dur"
    and "\<forall>a \<in> set as. id_antenna_receiver (h ! a) = Some k \<longrightarrow>
           (\<exists>q. dv (block_size (memory (h ! a))) dur = Inr q)"
  shows "\<exists>rcv. receive_all dv h k antenna as s =
           (Inr (), s\<lparr>dict_id_device_memory_blocks_to_receive := rcv\<rparr>) \<and>
         (\<forall>k'. odict_get rcv k' =
            odict_get (dict_id_device_memory_blocks_to_receive s) k' @
            (if k' = k
             then map (\<lambda>a. memory (h ! a))
                    (filter (\<lambda>a. id_antenna_receiver (h ! a) = Some k \<and>
                       (case dv (block_size (memory (h ! a))) dur of
                          Inl e \<Rightarrow> False
                        | Inr q \<Rightarrow> channel_capacity_receive (device_properties antenna) \<ge> q)) as)
             else []))"
  using assms
proof (induction as arbitrary: s)
  case Nil
  show ?case by (rule exI [of _ "dict_id_device_memory_blocks_to_receive s"]) simp
next
  case (Cons a rest)
  let ?keep = "\<lambda>a. id_antenna_receiver (h ! a) = Some k \<and>
     (case dv (block_size (memory (h ! a))) dur of
        Inl e \<Rightarrow> False
      | Inr q \<Rightarrow> channel_capacity_receive (device_properties antenna) \<ge> q)"
  have rest: "\<forall>a \<in> set rest. id_antenna_receiver (h ! a) = Some k \<longrightarrow>
           (\<exists>q. dv (block_size (memory (h ! a))) dur = Inr q)"
    using Cons.prems(2) by simp
  show ?case
  proof (cases "?keep a")
    case True
    let ?s1 = "s\<lparr>dict_id_device_memory_blocks_to_receive :=
                    odict_append (dict_id_device_memory_blocks_to_receive s) k (memory (h ! a))\<rparr>"
    have step: "receive_all dv h k antenna (a # rest) s = receive_all dv h k antenna rest ?s1"
      using True Cons.prems(1) by (auto split: sum.splits)
    have "duration ?s1 = Some dur" using Cons.prems by simp
    from Cons.IH [OF this rest] obtain rcv where
      r: "receive_all dv h k antenna rest ?s1 =
            (Inr (), ?s1\<lparr>dict_id_device_memory_blocks_to_receive := rcv\<rparr>)"
      and g: "\<And>k'. odict_get rcv k' =
            odict_get (dict_id_device_memory_blocks_to_receive ?s1) k' @
            (if k' = k then map (\<lambda>a. memory (h ! a)) (filter ?keep rest) else [])"
      by blast
    have f: "filter ?keep (a # rest) = a # filter ?keep rest" using True by simp
    show ?thesis
      apply (rule exI [of _ rcv])
      unfolding step f by (simp add: r g odict_get_append)
  next
    case False
    have step: "receive_all dv h k antenna (a # rest) s = receive_all dv h k antenna rest s"
      using False Cons.prems by (auto split: sum.splits)
    have f: "filter ?keep (a # rest) = filter ?keep rest" using False by simp
    show ?thesis unfolding step f by (rule Cons.IH [OF Cons.prems(1) rest])
  qed
qed

lemma finalize_loop_result:
  assumes "duration s = Some dur" "inbox_divide dv h g dur snap"
  shows "\<exists>rcv. finalize_loop dv h g snap s =
           (Inr (), s\<lparr>dict_id_device_memory_blocks_to_receive := rcv\<rparr>) \<and>
         (\<forall>k. odict_get rcv k =
            odict_get (dict_id_device_memory_blocks_to_receive s) k @
            concat (map (\<lambda>(k', d). if k' = k then pulled dv h g dur k' d else []) snap))"
  using assms
proof (induction snap arbitrary: s)
  case Nil
  show ?case by (rule exI [of _ "dict_id_device_memory_blocks_to_receive s"]) simp
next
  case (Cons e rest)
  obtain k' d where e: "e = (k', d)" by (cases e)
  from Cons.prems(2) have here: "\<forall>a \<in> set (receive_signal (Some (device_frequency d)) g).
        id_antenna_receiver (h ! a) = Some k' \<longrightarrow>
        (\<exists>q. dv (block_size (memory (h ! a))) dur = Inr q)"
    and rest: "inbox_divide dv h g dur rest"
    by (simp_all add: e inbox_divide_Cons)
  from receive_all_result [where s = s and dur = dur and h = h and k = k' and dv = dv
      and antenna = d and as = "receive_signal (Some (device_frequency d)) g",
      OF Cons.prems(1) here]
  obtain rcv1 where
    r1: "receive_all dv h k' d (receive_signal (Some (device_frequency d)) g) s =
           (Inr (), s\<lparr>dict_id_device_memory_blocks_to_receive := rcv1\<rparr>)"
    and g1: "\<And>k. odict_get rcv1 k =
            odict_get (dict_id_device_memory_blocks_to_receive s) k @
            (if k = k' then pulled dv h g dur k' d else [])"
    unfolding pulled_def by blast
  let ?s1 = "s\<lparr>dict_id_device_memory_blocks_to_receive := rcv1\<rparr>"
  have "duration ?s1 = Some dur" using Cons.prems by simp
  from Cons.IH [OF this rest] obtain rcv where
    r: "finalize_loop dv h g rest ?s1 = (Inr (), ?s1\<lparr>dict_id_device_memory_blocks_to_receive := rcv\<rparr>)"
    and g2: "\<And>k. odict_get rcv k =
            odict_get (dict_id_device_memory_blocks_to_receive ?s1) k @
            concat (map (\<lambda>(k', d). if k' = k then pulled dv h g dur k' d else []) rest)"
    by blast
  show ?case
    apply (rule exI [of _ rcv])
    by (simp add: e r1 r g2 g1)
qed

lemma finalize_step_result:
  assumes "duration s = Some dur"
    and "inbox_divide dv h g dur (dict_reception_channel_from_prev_step s)"
  shows "fst (finalize_step dv h g s) = Inr () \<and>
         (\<forall>k. get_antennas_signals k (snd (finalize_step dv h g s)) =
            get_antennas_signals k s @
            concat (map (\<lambda>(k', d). if k' = k then pulled dv h g dur k' d else [])
                      (dict_reception_channel_from_prev_step s)))"
proof -
  from finalize_loop_result [OF assms]
  obtain rcv where
    r: "finalize_step dv h g s = (Inr (), s\<lparr>dict_id_device_memory_blocks_to_receive := rcv\<rparr>)"
    and g: "\<And>k. odict_get rcv k =
            odict_get (dict_id_device_memory_blocks_to_receive s) k @
            concat (map (\<lambda>(k', d). if k' = k then pulled dv h g dur k' d else [])
                      (dict_reception_channel_from_prev_step s))"
    unfolding finalize_step_def by blast
  show ?thesis by (simp add: r g get_antennas_signals_def)
qed

lemma same_properties_refl [simp]: "same_properties s s"
  by (simp add: same_properties_def)










subsection \<open>Capacity\<close>


lemmas step_defs = imitation_step_def end_of_step_def listen_ether_def i_am_repeater_def
  send_signal_def alloc_def py_or_def consumer_with_def RadioTransmissionMediumConsumer_init_def
  exact_division_def


lemma after_step_eval:
  "after_step =
     \<lparr>antennas =
        [(0, \<lparr>id_antenna = 0, device_properties = antenna_properties,
              device_frequency = 100, communication_mode = FREE\<rparr>),
         (1, \<lparr>id_antenna = 1, device_properties = antenna_properties,
              device_frequency = 125, communication_mode = FREE\<rparr>)],
      list_transmission_channel = [], dict_reception_channel = [],
      dict_reception_channel_from_prev_step =
        [(0, \<lparr>id_antenna = 0, device_properties = antenna_properties,
              device_frequency = 100, communication_mode = RECEPTION\<rparr>)],
      list_relay_channel = [], dict_signals_to_send = [],
      dict_id_device_memory_blocks_to_receive = [], duration = Some 1\<rparr>"
  by (simp add: after_step_def global_1_def local_defs step_defs)


section \<open>The reception snapshot\<close>

lemma assign_preserves:
  assumes P: "P s"
    and md: "\<And>s k md. P s \<Longrightarrow> P (set_mode k md s)"
    and tn: "\<And>s s' f k. P s \<Longrightarrow> tune_antenna f k s = Inr s' \<Longrightarrow> P s'"
    and f1: "\<And>s x. P s \<Longrightarrow> P (s\<lparr>dict_signals_to_send := x\<rparr>)"
    and f2: "\<And>s x. P s \<Longrightarrow> P (s\<lparr>list_transmission_channel := x\<rparr>)"
    and f3: "\<And>s x. P s \<Longrightarrow> P (s\<lparr>dict_reception_channel := x\<rparr>)"
    and f4: "\<And>s x. P s \<Longrightarrow> P (s\<lparr>list_relay_channel := x\<rparr>)"
  shows "P (snd (assign a s))"
proof (cases a)
  case (AsTransmitter mem ia ir f iar)
  have m: "P (set_mode ia TRANSMISSION s)" using P by (rule md)
  show ?thesis
  proof (cases "tune_antenna f ia (set_mode ia TRANSMISSION s)")
    case (Inl e)
    then show ?thesis using P m
      by (simp add: AsTransmitter assign_device_as_transmitter_def split: option.splits)
  next
    case (Inr s1)
    have "P s1" using m Inr by (rule tn)
    then have "P (s1\<lparr>dict_signals_to_send := x, list_transmission_channel := y\<rparr>)" for x y
      by (intro f1 f2)
    then show ?thesis using P \<open>P s1\<close> Inr
      by (simp add: AsTransmitter assign_device_as_transmitter_def split: option.splits)
  qed
next
  case (AsReceiver ia f)
  have m: "P (set_mode ia RECEPTION s)" using P by (rule md)
  show ?thesis
  proof (cases "tune_antenna f ia (set_mode ia RECEPTION s)")
    case (Inl e)
    then show ?thesis using P m
      by (simp add: AsReceiver assign_device_as_receiver_def split: option.splits)
  next
    case (Inr s1)
    have "P s1" using m Inr by (rule tn)
    then have "P (s1\<lparr>dict_reception_channel := y\<rparr>)" for y
      by (intro f3)
    then show ?thesis using P Inr
      by (simp add: AsReceiver assign_device_as_receiver_def split: option.splits)
  qed
next
  case (AsRepeater id_in id_out id_dest id_ant_dest f_in f_out save)
  let ?m = "set_mode id_out RELAYING_OUT (set_mode id_in RELAYING_IN s)"
  have m: "P ?m" using P by (intro md)
  show ?thesis
  proof (cases "tune_antenna f_in id_in ?m")
    case (Inl e)
    then show ?thesis using P m
      by (simp add: AsRepeater assign_device_as_repeater_def split: option.splits)
  next
    case s1: (Inr s1)
    have p1: "P s1" using m s1 by (rule tn)
    show ?thesis
    proof (cases "tune_antenna f_out id_out s1")
      case (Inl e)
      then show ?thesis using P p1 s1
        by (simp add: AsRepeater assign_device_as_repeater_def split: option.splits)
    next
      case (Inr s2)
      have "P s2" using p1 Inr by (rule tn)
      then have "P (s2\<lparr>list_relay_channel := y\<rparr>)" for y
        by (intro f4)
      then show ?thesis using P s1 Inr
        by (simp add: AsRepeater assign_device_as_repeater_def split: option.splits)
    qed
  qed
qed

lemma same_configuration_refl [simp]: "same_configuration s s"
  by (simp add: same_configuration_def)

lemma same_configuration_trans:
  "same_configuration s s' \<Longrightarrow> same_configuration s' s'' \<Longrightarrow> same_configuration s s''"
  by (simp add: same_configuration_def)

lemma same_configuration_set_mode [simp]: "same_configuration s (set_mode k md s)"
  by (auto simp: same_configuration_def modeless_def set_mode_def update_antenna_def erase_mode_def)

lemma send_staged_configuration:
  "send_staged dv dur k cap sigs (h, g, s) = (r, (h', g', s')) \<Longrightarrow> same_configuration s s'"
proof (induction sigs arbitrary: h g s)
  case Nil
  then show ?case by simp
next
  case (Cons sg rest)
  show ?case
  proof (cases "dv (block_size (memory sg)) dur")
    case (Inl e)
    then show ?thesis using Cons.prems by simp
  next
    case (Inr q)
    show ?thesis
    proof (cases "cap \<ge> q")
      case False
      then show ?thesis using Cons.prems Inr by simp
    next
      case True
      obtain sent h1 g1 where snd: "send_signal (id_receiver sg) (memory sg) (Some (frequency sg))
                  (id_antenna_receiver sg) h g = (sent, h1, g1)"
        by (cases "send_signal (id_receiver sg) (memory sg) (Some (frequency sg))
                  (id_antenna_receiver sg) h g") auto
      have "send_staged dv dur k cap rest (h1, g1, set_mode k TRANSMISSION s) = (r, (h', g', s'))"
        using Cons.prems True Inr snd by simp
      then have "same_configuration (set_mode k TRANSMISSION s) s'" by (rule Cons.IH)
      with same_configuration_set_mode show ?thesis by (rule same_configuration_trans)
    qed
  qed
qed

lemma send_all_configuration:
  "send_all dv dur entries (h, g, s) = (r, (h', g', s')) \<Longrightarrow> same_configuration s s'"
proof (induction entries arbitrary: h g s)
  case Nil
  then show ?case by simp
next
  case (Cons e rest)
  obtain k sigs where e: "e = (k, sigs)" by (cases e)
  show ?case
  proof (cases "map_of (antennas s) k")
    case None
    then show ?thesis using Cons.prems by (simp add: e)
  next
    case (Some d)
    obtain r1 h1 g1 s1 where st: "send_staged dv dur k (channel_capacity_transmit (device_properties d))
                sigs (h, g, s) = (r1, (h1, g1, s1))"
      by (metis prod_cases3 surj_pair)
    then have c1: "same_configuration s s1" by (rule send_staged_configuration)
    show ?thesis
    proof (cases r1)
      case (Inl err)
      then show ?thesis using Cons.prems Some st c1 by (simp add: e)
    next
      case (Inr u)
      then have "send_all dv dur rest (h1, g1, s1) = (r, (h', g', s'))"
        using Cons.prems Some st by (simp add: e)
      then have "same_configuration s1 s'" by (rule Cons.IH)
      with c1 show ?thesis by (rule same_configuration_trans)
    qed
  qed
qed

lemma listen_all_configuration:
  "listen_all refs (h, g, s) = (r, (h', g', s')) \<Longrightarrow> same_configuration s s'"
proof (induction refs arbitrary: h g s)
  case Nil
  then show ?case by simp
next
  case (Cons ref rest)
  show ?case
  proof (cases "map_of (antennas s) ref")
    case None
    then show ?thesis using Cons.prems by simp
  next
    case (Some d)
    then have "listen_all rest
            (h, snd (listen_ether (id_antenna d) (Some (device_frequency d)) g),
             set_mode ref RECEPTION s) = (r, (h', g', s'))"
      using Cons.prems by simp
    then have "same_configuration (set_mode ref RECEPTION s) s'" by (rule Cons.IH)
    with same_configuration_set_mode show ?thesis by (rule same_configuration_trans)
  qed
qed

lemma relay_all_configuration:
  "relay_all chs (h, g, s) = (r, (h', g', s')) \<Longrightarrow> same_configuration s s'"
proof (induction chs arbitrary: h g s)
  case Nil
  then show ?case by simp
next
  case (Cons ch rest)
  show ?case
  proof (cases "map_of (antennas s) (channel_antenna_in ch)")
    case None
    then show ?thesis using Cons.prems by simp
  next
    case din: (Some d_in)
    show ?thesis
    proof (cases "map_of (antennas s) (channel_antenna_out ch)")
      case None
      then show ?thesis using Cons.prems din by simp
    next
      case (Some d_out)
      let ?s1 = "set_mode (channel_antenna_out ch) RELAYING_OUT
               (set_mode (channel_antenna_in ch) RELAYING_IN s)"
      from Cons.prems din Some obtain g1 where "relay_all rest (h, g1, ?s1) = (r, (h', g', s'))"
        by simp
      then have "same_configuration ?s1 s'" by (rule Cons.IH)
      moreover have "same_configuration s ?s1"
        by (rule same_configuration_trans [OF same_configuration_set_mode same_configuration_set_mode])
      ultimately show ?thesis by (rule same_configuration_trans [rotated])
    qed
  qed
qed

lemma map_of_modeless: "map_of (modeless ds) k = map_option erase_mode (map_of ds k)"
  by (induction ds) (auto simp: modeless_def)

lemma deepcopy_reception_modeless:
  assumes "modeless (antennas s') = modeless (antennas s)"
  shows "modeless (deepcopy_reception rc s') = modeless (deepcopy_reception rc s)"
proof (induction rc)
  case Nil
  show ?case by simp
next
  case (Cons e rest)
  obtain k r where e: "e = (k, r)" by (cases e)
  have "map_option erase_mode (map_of (antennas s') r) = map_option erase_mode (map_of (antennas s) r)"
    by (simp add: map_of_modeless [symmetric] assms)
  then show ?case using Cons.IH
    by (cases "map_of (antennas s') r"; cases "map_of (antennas s) r") (simp_all add: e modeless_def)
qed

lemma pulled_erase_mode [simp]: "pulled dv h g dur k (erase_mode d) = pulled dv h g dur k d"
  by (simp add: pulled_def erase_mode_def cong: sum.case_cong)

lemma pulled_modeless:
  "concat (map (\<lambda>(k', d). if k' = k then pulled dv h g dur k' d else []) (modeless snap)) =
   concat (map (\<lambda>(k', d). if k' = k then pulled dv h g dur k' d else []) snap)"
  by (induction snap) (auto simp: modeless_def)

lemma inbox_divide_modeless:
  "inbox_divide dv h g dur (modeless snap) = inbox_divide dv h g dur snap"
proof (induction snap)
  case Nil
  show ?case by (simp add: modeless_def)
next
  case (Cons e rest)
  obtain k d where e: "e = (k, d)" by (cases e)
  have "modeless (e # rest) = (k, erase_mode d) # modeless rest" by (simp add: e modeless_def)
  then show ?case using Cons.IH by (simp add: e inbox_divide_Cons erase_mode_def)
qed

lemma imitation_step_snapshot:
  assumes "fst (imitation_step dv dur (h, g, s)) = Inr ()"
  shows "\<exists>s3. snd (snd (snd (imitation_step dv dur (h, g, s)))) = end_of_step s3 \<and>
              same_configuration (s\<lparr>duration := Some dur\<rparr>) s3"
proof -
  obtain r1 h1 g1 s1 where 1: "send_all dv dur (dict_signals_to_send s) (h, g, s\<lparr>duration := Some dur\<rparr>) =
       (r1, (h1, g1, s1))"
    by (cases "send_all dv dur (dict_signals_to_send s) (h, g, s\<lparr>duration := Some dur\<rparr>)"
          rule: prod_cases4) blast
  then have c1: "same_configuration (s\<lparr>duration := Some dur\<rparr>) s1" by (rule send_all_configuration)
  obtain r2 h2 g2 s2 where 2: "listen_all (map snd (dict_reception_channel s1)) (h1, g1, s1) =
       (r2, (h2, g2, s2))"
    by (cases "listen_all (map snd (dict_reception_channel s1)) (h1, g1, s1)" rule: prod_cases4) blast
  then have c2: "same_configuration s1 s2" by (rule listen_all_configuration)
  obtain r3 h3 g3 s3 where 3: "relay_all (list_relay_channel s2) (h2, g2, s2) = (r3, (h3, g3, s3))"
    by (cases "relay_all (list_relay_channel s2) (h2, g2, s2)" rule: prod_cases4) blast
  then have c3: "same_configuration s2 s3" by (rule relay_all_configuration)
  have c: "same_configuration (s\<lparr>duration := Some dur\<rparr>) s3"
    using c1 c2 c3 by (blast intro: same_configuration_trans)
  have "snd (snd (snd (imitation_step dv dur (h, g, s)))) = end_of_step s3"
    using assms 1 2 3 by (cases r1; cases r2; cases r3) (simp_all add: imitation_step_def)
  with c show ?thesis by blast
qed

lemma kept_refl [simp]: "kept s s"
  by (simp add: kept_def)

lemma kept_update_antenna [simp]: "kept s (update_antenna k f s') = kept s s'"
  by (simp add: kept_def update_antenna_def)

lemma kept_tune_antenna: "kept s s1 \<Longrightarrow> tune_antenna f k s1 = Inr s2 \<Longrightarrow> kept s s2"
  by (auto simp: tune_antenna_def split: option.splits sum.splits)

lemma kept_assign: "kept s s1 \<Longrightarrow> kept s (snd (assign a s1))"
proof (rule assign_preserves [where P = "kept s"])
  show "\<And>s1 k md. kept s s1 \<Longrightarrow> kept s (set_mode k md s1)" by (simp add: set_mode_def)
  show "\<And>s1 s' f k. kept s s1 \<Longrightarrow> tune_antenna f k s1 = Inr s' \<Longrightarrow> kept s s'"
    by (rule kept_tune_antenna)
qed (simp_all add: kept_def)

lemma kept_reassign: "kept s s1 \<Longrightarrow> kept s (reassign as s1)"
  unfolding reassign_def
  by (induction as arbitrary: s1) (simp_all add: kept_assign)

lemma finalize_after_reassign:
  assumes "fst (imitation_step dv dur (h, g, s)) = Inr ()"
    and "inbox_divide dv h' g' dur (deepcopy_reception (dict_reception_channel s) s)"
  shows "fst (finalize_step dv h' g'
                (reassign as (snd (snd (snd (imitation_step dv dur (h, g, s))))))) = Inr () \<and>
         (\<forall>k. get_antennas_signals k
                (snd (finalize_step dv h' g'
                        (reassign as (snd (snd (snd (imitation_step dv dur (h, g, s)))))))) =
              concat (map (\<lambda>(k', d). if k' = k then pulled dv h' g' dur k' d else [])
                        (deepcopy_reception (dict_reception_channel s) s)))"
proof -
  let ?s1 = "snd (snd (snd (imitation_step dv dur (h, g, s))))"
  let ?s2 = "reassign as ?s1"
  let ?snap = "deepcopy_reception (dict_reception_channel s) s"
  from imitation_step_snapshot [OF assms(1)] obtain s3 where
    s1: "?s1 = end_of_step s3" and c: "same_configuration (s\<lparr>duration := Some dur\<rparr>) s3"
    by blast
  have k: "kept ?s1 ?s2" by (rule kept_reassign) simp
  have dur: "duration ?s2 = Some dur"
    using k c by (simp add: kept_def s1 end_of_step_def same_configuration_def)
  have none: "dict_id_device_memory_blocks_to_receive ?s2 = []"
    using k by (simp add: kept_def s1 end_of_step_def)
  have "dict_reception_channel_from_prev_step ?s2 = deepcopy_reception (dict_reception_channel s) s3"
    using k c by (simp add: kept_def s1 end_of_step_def same_configuration_def)
  moreover have "modeless (deepcopy_reception (dict_reception_channel s) s3) =
      modeless (deepcopy_reception (dict_reception_channel s) (s\<lparr>duration := Some dur\<rparr>))"
    by (rule deepcopy_reception_modeless) (use c in \<open>simp add: same_configuration_def\<close>)
  moreover have "modeless (deepcopy_reception (dict_reception_channel s) (s\<lparr>duration := Some dur\<rparr>)) =
      modeless ?snap"
    by (rule deepcopy_reception_modeless) simp
  ultimately have snap: "modeless (dict_reception_channel_from_prev_step ?s2) = modeless ?snap"
    by simp
  have "inbox_divide dv h' g' dur (modeless (dict_reception_channel_from_prev_step ?s2))"
    unfolding snap inbox_divide_modeless by (rule assms(2))
  then have "inbox_divide dv h' g' dur (dict_reception_channel_from_prev_step ?s2)"
    by (simp only: inbox_divide_modeless)
  from finalize_step_result [OF dur this]
  have 1: "fst (finalize_step dv h' g' ?s2) = Inr ()"
    and 2: "\<And>k. get_antennas_signals k (snd (finalize_step dv h' g' ?s2)) =
            get_antennas_signals k ?s2 @
            concat (map (\<lambda>(k', d). if k' = k then pulled dv h' g' dur k' d else [])
                      (dict_reception_channel_from_prev_step ?s2))"
    by blast+
  have 3: "concat (map (\<lambda>(k', d). if k' = k then pulled dv h' g' dur k' d else [])
                      (dict_reception_channel_from_prev_step ?s2)) =
           concat (map (\<lambda>(k', d). if k' = k then pulled dv h' g' dur k' d else []) ?snap)" for k
  proof -
    have "concat (map (\<lambda>(k', d). if k' = k then pulled dv h' g' dur k' d else [])
                      (modeless (dict_reception_channel_from_prev_step ?s2))) =
           concat (map (\<lambda>(k', d). if k' = k then pulled dv h' g' dur k' d else []) (modeless ?snap))"
      by (simp only: snap)
    then show ?thesis by (simp only: pulled_modeless)
  qed
  show ?thesis using 1 2 3 by (simp add: get_antennas_signals_def none odict_get_def)
qed

text \<open>
  Claim C3. Let \<open>imitation_step\<close> of tick N succeed on the system \<open>s\<close>, whose reception
  dictionary holds the devices assigned as receivers in that tick. Then, whatever
  assignments \<open>as\<close> are made afterwards (tick N+1) and whatever the global step left in the
  store \<open>h'\<close> and in the inbox of the global consumer \<open>g'\<close>, \<open>finalize_step\<close> raises nothing
  (the division having a value for the inbox signals it divides for) and what
  \<open>get_antennas_signals\<close> returns for every key is what is pulled for the devices of the
  reception dictionary of \<open>s\<close>, each under its key and at the frequency it had in \<open>s\<close>:
  the same as with no assignment made in between.
\<close>

theorem finalize_uses_snapshot:
  assumes "fst (imitation_step dv dur (h, g, s)) = Inr ()"
    and "inbox_divide dv h' g' dur (deepcopy_reception (dict_reception_channel s) s)"
  shows "fst (finalize_step dv h' g'
                (reassign as (snd (snd (snd (imitation_step dv dur (h, g, s))))))) = Inr () \<and>
         (\<forall>k. get_antennas_signals k
                (snd (finalize_step dv h' g'
                        (reassign as (snd (snd (snd (imitation_step dv dur (h, g, s)))))))) =
              concat (map (\<lambda>(k', d). if k' = k then pulled dv h' g' dur k' d else [])
                        (deepcopy_reception (dict_reception_channel s) s))) \<and>
         (\<forall>k. get_antennas_signals k
                (snd (finalize_step dv h' g'
                        (reassign as (snd (snd (snd (imitation_step dv dur (h, g, s)))))))) =
              get_antennas_signals k
                (snd (finalize_step dv h' g' (snd (snd (snd (imitation_step dv dur (h, g, s))))))))"
proof -
  note with_as = finalize_after_reassign [OF assms, of as]
  note without = finalize_after_reassign [OF assms, of "[]"]
  have "reassign [] (snd (snd (snd (imitation_step dv dur (h, g, s))))) =
        snd (snd (snd (imitation_step dv dur (h, g, s))))"
    by (simp add: reassign_def)
  with with_as without show ?thesis by simp
qed

lemma receiving_eval:
  "receiving =
     \<lparr>antennas =
        [(0, \<lparr>id_antenna = 0, device_properties = antenna_properties,
              device_frequency = 100, communication_mode = RECEPTION\<rparr>),
         (1, \<lparr>id_antenna = 1, device_properties = antenna_properties,
              device_frequency = 125, communication_mode = FREE\<rparr>)],
      list_transmission_channel = [], dict_reception_channel = [(0, 0)],
      dict_reception_channel_from_prev_step = [],
      list_relay_channel = [], dict_signals_to_send = [],
      dict_id_device_memory_blocks_to_receive = [], duration = None\<rparr>"
  by (simp add: receiving_def local_defs)

lemma after_step_receiving:
  "snd (snd (snd (imitation_step exact_division 1 ([], global_1, receiving)))) = after_step"
  by (simp add: after_step_def receiving_def)

lemma reassigned_eval:
  "reassign [AsReceiver 0 (Some 150)] after_step =
     \<lparr>antennas =
        [(0, \<lparr>id_antenna = 0, device_properties = antenna_properties,
              device_frequency = 150, communication_mode = RECEPTION\<rparr>),
         (1, \<lparr>id_antenna = 1, device_properties = antenna_properties,
              device_frequency = 125, communication_mode = FREE\<rparr>)],
      list_transmission_channel = [], dict_reception_channel = [(0, 0)],
      dict_reception_channel_from_prev_step =
        [(0, \<lparr>id_antenna = 0, device_properties = antenna_properties,
              device_frequency = 100, communication_mode = RECEPTION\<rparr>)],
      list_relay_channel = [], dict_signals_to_send = [],
      dict_id_device_memory_blocks_to_receive = [], duration = Some 1\<rparr>"
  by (simp add: reassign_def after_step_eval local_defs)

theorem finalize_uses_snapshot_witness:
  "device_frequency (the (map_of (antennas (reassign [AsReceiver 0 (Some 150)] after_step)) 0)) = 150 \<and>
   fst (finalize_step exact_division arrived inbox_1
          (reassign [AsReceiver 0 (Some 150)] after_step)) = Inr () \<and>
   get_antennas_signals 0
     (snd (finalize_step exact_division arrived inbox_1
             (reassign [AsReceiver 0 (Some 150)] after_step))) = [block] \<and>
   get_antennas_signals 0 (snd (finalize_step exact_division arrived inbox_1 after_step)) = [block]"
proof -
  have ok: "fst (imitation_step exact_division 1 ([], global_1, receiving)) = Inr ()"
    by (simp add: receiving_eval global_1_def step_defs)
  have snap: "deepcopy_reception (dict_reception_channel receiving) receiving =
      [(0, \<lparr>id_antenna = 0, device_properties = antenna_properties,
            device_frequency = 100, communication_mode = RECEPTION\<rparr>)]"
    by (simp add: receiving_eval)
  have div: "inbox_divide exact_division arrived inbox_1 1
      (deepcopy_reception (dict_reception_channel receiving) receiving)"
    unfolding snap by (simp add: inbox_divide_def exact_division_def)
  have p: "pulled exact_division arrived inbox_1 1 0
             \<lparr>id_antenna = 0, device_properties = antenna_properties,
              device_frequency = 100, communication_mode = RECEPTION\<rparr> = [block]"
    by (simp add: pulled_def arrived_def inbox_1_def global_1_def receive_signal_def
          consumer_with_def RadioTransmissionMediumConsumer_init_def py_or_def py_int_def
          dict_get_def block_size_def block_def big_block_def antenna_properties_def
          exact_division_def)
  from finalize_uses_snapshot [where dv = exact_division and dur = 1 and h = "[]"
      and g = global_1 and s = receiving and h' = arrived and g' = inbox_1
      and as = "[AsReceiver 0 (Some 150)]", OF ok div]
  have 1: "fst (finalize_step exact_division arrived inbox_1
          (reassign [AsReceiver 0 (Some 150)] after_step)) = Inr ()"
    and 2: "get_antennas_signals 0
     (snd (finalize_step exact_division arrived inbox_1
             (reassign [AsReceiver 0 (Some 150)] after_step))) =
       concat (map (\<lambda>(k', d). if k' = 0 then pulled exact_division arrived inbox_1 1 k' d else [])
                 (deepcopy_reception (dict_reception_channel receiving) receiving))"
    and 4: "get_antennas_signals 0
     (snd (finalize_step exact_division arrived inbox_1
             (reassign [AsReceiver 0 (Some 150)] after_step))) =
       get_antennas_signals 0 (snd (finalize_step exact_division arrived inbox_1 after_step))"
    unfolding after_step_receiving by blast+
  have 3: "device_frequency (the (map_of (antennas (reassign [AsReceiver 0 (Some 150)] after_step)) 0)) = 150"
    by (simp add: reassigned_eval)
  show ?thesis using 1 2 3 4 by (simp add: snap p)
qed

end
